theory Spec2Isabelle
  imports Main
begin

section \<open>Levels, colours and styles (logger.go, lines 16-55)\<close>

text \<open>
  \<^verbatim>\<open>type LEVEL int\<close> with the constants \<^verbatim>\<open>ALL .. FATAL\<close> numbered by \<^verbatim>\<open>iota\<close>
  (\<open>ALL\<close> is the universal quantifier in HOL, so the first one is \<open>ALL_LEVEL\<close> here).
  \<^verbatim>\<open>SetLevel\<close> accepts every value of the type, so a level is an integer here and the
  six names are constants. Levels are only ever compared, never added to, so the
  width of the Go integer plays no part.
\<close>

type_synonym LEVEL = int

definition ALL_LEVEL :: LEVEL where "ALL_LEVEL = 0"
definition DEBUG :: LEVEL where "DEBUG = 1"
definition INFO :: LEVEL where "INFO = 2"
definition WARN :: LEVEL where "WARN = 3"
definition ERROR :: LEVEL where "ERROR = 4"
definition FATAL :: LEVEL where "FATAL = 5"

definition CLR_RED :: nat where "CLR_RED = 31"
definition CLR_YELLOW :: nat where "CLR_YELLOW = 33"
definition CLR_PURPLE :: nat where "CLR_PURPLE = 35"
definition CLR_DEFAULT :: nat where "CLR_DEFAULT = 39"

definition STYLE_DEFAULT :: nat where "STYLE_DEFAULT = 0"
definition STYLE_HIGHLIGHT :: nat where "STYLE_HIGHLIGHT = 1"

text \<open>
  The flags of package \<^verbatim>\<open>log\<close>: \<^verbatim>\<open>Ldate = 1\<close>, \<^verbatim>\<open>Lmicroseconds = 4\<close>,
  \<^verbatim>\<open>Lshortfile = 16\<close>.
\<close>

definition logFlags :: nat where "logFlags = 1 + 4 + 16"
definition logConsoleFlag :: nat where "logConsoleFlag = 0"
definition logDumpExceptionFlag :: nat where "logDumpExceptionFlag = 0"
definition logMaxSize :: int where "logMaxSize = 512 * 1024 * 1024"

section \<open>Formatting of numbers and strings (the verbs of package fmt that the code uses)\<close>

definition digit :: "nat \<Rightarrow> char" where
  "digit d = ''0123456789'' ! d"

text \<open>\<^verbatim>\<open>%d\<close> on a non-negative integer.\<close>

fun decimal :: "nat \<Rightarrow> string" where
  "decimal n = (if n < 10 then [digit n] else decimal (n div 10) @ [digit (n mod 10)])"

declare decimal.simps [simp del]

text \<open>\<^verbatim>\<open>%0wd\<close> on a non-negative integer: zero padding up to the width, never truncation.\<close>

definition zpad :: "nat \<Rightarrow> nat \<Rightarrow> string" where
  "zpad w n = replicate (w - length (decimal n)) (CHR ''0'') @ decimal n"

definition newline :: char where "newline = CHR 0x0A"
definition escape :: char where "escape = CHR 0x1B"
definition tab :: char where "tab = CHR 0x09"

text \<open>\<^verbatim>\<open>strings.TrimRight(s, "\n")\<close>: every trailing newline is removed.\<close>

definition TrimRight :: "string \<Rightarrow> string" where
  "TrimRight s = rev (dropWhile (\<lambda>c. c = newline) (rev s))"

text \<open>
  \<^verbatim>\<open>SprintColor\<close> (lines 145-151):
  \<^verbatim>\<open>fmt.Sprintf("%c[%d;%d;%dm%s%c[0m", 0x1B, int(s), _bc, _fc, str, 0x1B)\<close>
  with \<^verbatim>\<open>_bc = int(bc) + 10\<close>.
\<close>

definition SprintColor :: "string \<Rightarrow> nat \<Rightarrow> nat \<Rightarrow> nat \<Rightarrow> string" where
  "SprintColor str s fc bc =
     (let fc' = fc; bc' = bc + 10
      in [escape] @ ''['' @ decimal s @ '';'' @ decimal bc' @ '';'' @ decimal fc' @ ''m''
         @ str @ [escape] @ ''[0m'')"

section \<open>The clock\<close>

text \<open>
  A reading of \<^verbatim>\<open>time.Now()\<close>, by the fields the code asks for. The wall clock gives
  non-negative fields, so they are naturals.
\<close>

record gotime =
  Year :: nat
  Month :: nat
  Day :: nat
  Hour :: nat
  Minute :: nat
  Second :: nat
  Nanosecond :: nat

definition isLeap :: "nat \<Rightarrow> bool" where
  "isLeap y = (y mod 4 = 0 \<and> (y mod 100 \<noteq> 0 \<or> y mod 400 = 0))"

definition daysBefore :: "nat \<Rightarrow> nat" where
  "daysBefore m = [0, 31, 59, 90, 120, 151, 181, 212, 243, 273, 304, 334] ! (m - 1)"

text \<open>\<^verbatim>\<open>Time.YearDay()\<close>: the day of the year, 1 to 365 (366 in a leap year).\<close>

definition YearDay :: "gotime \<Rightarrow> nat" where
  "YearDay t = daysBefore (Month t) + Day t + (if isLeap (Year t) \<and> 2 < Month t then 1 else 0)"

section \<open>The environment: file system, descriptors, output streams\<close>

text \<open>
  What \<^verbatim>\<open>os.Stat\<close> reports about a path: its size and whether it is a directory.
\<close>

record FileInfo =
  Size :: int
  IsDir :: bool

text \<open>
  What the process does to the outside, in order: a write that reached a file, a line
  on the standard logger of package \<^verbatim>\<open>log\<close> (standard error), a line on standard
  output.
\<close>

datatype event =
    FileWrite string string
  | Stderr string
  | Stdout string

text \<open>
  An \<^verbatim>\<open>*os.File\<close> is a descriptor number, \<open>None\<close> the nil pointer. A
  \<^verbatim>\<open>*log.Logger\<close> holds its writer and its flags.
\<close>

record Logger =
  out :: "nat option"
  lflags :: nat

text \<open>\<^verbatim>\<open>type LOG_FILE struct\<close> (lines 65-73). The lock is left out: the model is sequential.\<close>

record LOG_FILE =
  log_dir :: string
  log_filename :: string
  timestamp :: gotime
  logfilepath :: string
  logfile :: "nat option"
  logger :: "Logger option"

text \<open>
  The package variables (lines 75-80) together with the environment the code reads and
  writes: the clock, the file system as a map from path to what \<^verbatim>\<open>os.Stat\<close> reports
  (a path is an opaque key; creating a directory stands for creating it with its missing
  parents), the paths on which the operating system refuses to create or open
  (permissions, a full disk, ...), the table of open descriptors, and the events so far.
\<close>

record state =
  logLevel :: LEVEL
  logConsole :: bool
  logConsolePrefix :: string
  logFile :: "LOG_FILE option"
  clock :: gotime
  files :: "string \<Rightarrow> FileInfo option"
  denied :: "string \<Rightarrow> bool"
  fdtab :: "nat \<Rightarrow> string option"
  nextfd :: nat
  events :: "event list"

definition SetConsole :: "bool \<Rightarrow> state \<Rightarrow> state" where
  "SetConsole isConsole st = st\<lparr>logConsole := isConsole\<rparr>"

definition SetConsolePrefix :: "string \<Rightarrow> state \<Rightarrow> state" where
  "SetConsolePrefix prefix st = st\<lparr>logConsolePrefix := prefix\<rparr>"

definition SetLevel :: "LEVEL \<Rightarrow> state \<Rightarrow> state" where
  "SetLevel level st = st\<lparr>logLevel := level\<rparr>"

text \<open>\<^verbatim>\<open>os.Stat\<close>: \<open>None\<close> is the error.\<close>

definition Stat :: "state \<Rightarrow> string \<Rightarrow> FileInfo option" where
  "Stat st p = files st p"

text \<open>\<^verbatim>\<open>isFileExist\<close> (lines 1139-1149).\<close>

definition isFileExist :: "state \<Rightarrow> string \<Rightarrow> bool" where
  "isFileExist st file =
     (case Stat st file of
        None \<Rightarrow> False
      | Some finfo \<Rightarrow> if IsDir finfo then False else True)"

text \<open>
  \<^verbatim>\<open>os.MkdirAll\<close>: nothing to do for a directory, an error for a path that is a file or
  that the system refuses, a new directory otherwise. The first component is the error
  (the code drops it everywhere).
\<close>

definition MkdirAll :: "string \<Rightarrow> state \<Rightarrow> bool \<times> state" where
  "MkdirAll p st =
     (case Stat st p of
        Some info \<Rightarrow> if IsDir info then (False, st) else (True, st)
      | None \<Rightarrow>
          if denied st p then (True, st)
          else (False, st\<lparr>files := (files st)(p \<mapsto> \<lparr>Size = 4096, IsDir = True\<rparr>)\<rparr>))"

text \<open>
  \<^verbatim>\<open>os.OpenFile(p, O_RDWR|O_APPEND|O_CREATE, ModePerm)\<close>: an error (\<open>None\<close>) for a
  directory or a refused path; otherwise the file is created empty when it is not there
  and a fresh descriptor is returned.
\<close>

definition OpenFile :: "string \<Rightarrow> state \<Rightarrow> nat option \<times> state" where
  "OpenFile p st =
     (if denied st p then (None, st)
      else case Stat st p of
        Some info \<Rightarrow>
          if IsDir info then (None, st)
          else (Some (nextfd st), st\<lparr>fdtab := (fdtab st)(nextfd st \<mapsto> p), nextfd := nextfd st + 1\<rparr>)
      | None \<Rightarrow>
          (Some (nextfd st),
           st\<lparr>files := (files st)(p \<mapsto> \<lparr>Size = 0, IsDir = False\<rparr>),
              fdtab := (fdtab st)(nextfd st \<mapsto> p), nextfd := nextfd st + 1\<rparr>))"

text \<open>\<^verbatim>\<open>(*os.File).Close\<close>; the error of closing a closed descriptor is dropped by the code.\<close>

definition Close :: "nat \<Rightarrow> state \<Rightarrow> state" where
  "Close fd st = st\<lparr>fdtab := (fdtab st)(fd := None)\<rparr>"

text \<open>
  \<^verbatim>\<open>(*os.File).Write\<close>: on the nil pointer and on a closed descriptor it returns an error
  and writes nothing; otherwise the bytes are appended to the file of the descriptor.
\<close>

definition Write :: "nat option \<Rightarrow> string \<Rightarrow> state \<Rightarrow> state" where
  "Write f b st =
     (case f of
        None \<Rightarrow> st
      | Some fd \<Rightarrow>
          (case fdtab st fd of
             None \<Rightarrow> st
           | Some p \<Rightarrow>
               st\<lparr>files := (\<lambda>q. if q = p
                    then map_option (\<lambda>i. i\<lparr>Size := Size i + int (length b)\<rparr>) (files st q)
                    else files st q),
                  events := events st @ [FileWrite p b]\<rparr>))"

section \<open>Package log\<close>

text \<open>
  Where a call comes from, as \<^verbatim>\<open>runtime.Caller\<close> reports it: file and line.
\<close>

record callsite =
  cfile :: string
  cline :: nat

text \<open>
  \<^verbatim>\<open>short\<close> of a file name, as both package \<^verbatim>\<open>log\<close> and \<^verbatim>\<open>console\<close> (lines 1167-1174)
  compute it: \<^verbatim>\<open>for i := len(file) - 1; i > 0; i-- { if file[i] == '/' { short = file[i+1:]; break } }\<close>.
\<close>

fun shortLoop :: "string \<Rightarrow> nat \<Rightarrow> string" where
  "shortLoop file 0 = file"
| "shortLoop file (Suc i) =
     (if file ! Suc i = CHR ''/'' then drop (Suc i + 1) file else shortLoop file i)"

definition short :: "string \<Rightarrow> string" where
  "short file = shortLoop file (length file - 1)"

text \<open>
  The header a logger puts before a line. Only two flag values occur in the code:
  0 (no header) and \<^verbatim>\<open>Ldate|Lmicroseconds|Lshortfile\<close>.
\<close>

definition formatHeader :: "nat \<Rightarrow> gotime \<Rightarrow> callsite \<Rightarrow> string" where
  "formatHeader flags t cs =
     (if flags = 0 then []
      else zpad 4 (Year t) @ ''/'' @ zpad 2 (Month t) @ ''/'' @ zpad 2 (Day t) @ '' ''
         @ zpad 2 (Hour t) @ '':'' @ zpad 2 (Minute t) @ '':'' @ zpad 2 (Second t)
         @ ''.'' @ zpad 6 (Nanosecond t div 1000) @ '' ''
         @ short (cfile cs) @ '':'' @ decimal (cline cs) @ '': '')"

text \<open>A newline is added to a line that does not end in one.\<close>

definition endLine :: "string \<Rightarrow> string" where
  "endLine s = (if s = [] \<or> last s \<noteq> newline then s @ [newline] else s)"

text \<open>
  A call either returns or panics. The panic in flight (\<open>None\<close>: none) comes with
  the state that the call leaves behind.
\<close>

type_synonym panic = string
type_synonym outcome = "panic option \<times> state"

text \<open>
  \<^verbatim>\<open>(*log.Logger).Output\<close>: on the nil logger the first field access is a nil pointer
  dereference; otherwise header and line go to the writer, whose error is returned (and
  dropped by every caller in this package).
\<close>

definition Output :: "Logger option \<Rightarrow> callsite \<Rightarrow> string \<Rightarrow> state \<Rightarrow> outcome" where
  "Output l cs s st =
     (case l of
        None \<Rightarrow> (Some ''invalid memory address or nil pointer dereference'', st)
      | Some lg \<Rightarrow> (None, Write (out lg) (formatHeader (lflags lg) (clock st) cs @ endLine s) st))"

text \<open>
  \<^verbatim>\<open>log.Println\<close> on the standard logger: a line on standard error. The header of the
  standard logger (its flags are set to 0 by \<^verbatim>\<open>Initialize\<close>) is not rendered.
\<close>

definition log_Println :: "string \<Rightarrow> state \<Rightarrow> state" where
  "log_Println s st = st\<lparr>events := events st @ [Stderr (endLine s)]\<rparr>"

text \<open>\<^verbatim>\<open>fmt.Println\<close> of one string: a line on standard output.\<close>

definition fmt_Println :: "string \<Rightarrow> state \<Rightarrow> state" where
  "fmt_Println s st = st\<lparr>events := events st @ [Stdout (s @ [newline])]\<rparr>"

section \<open>Console output (lines 1164-1201)\<close>

definition console :: "LEVEL \<Rightarrow> string \<Rightarrow> callsite \<Rightarrow> state \<Rightarrow> state" where
  "console ll args cs st =
     (if logConsole st then
        (let file = short (cfile cs);
             line = cline cs;
             now = clock st;
             stamp = ''==>['' @ zpad 4 (Year now) @ ''/'' @ zpad 2 (Month now) @ ''/''
                     @ zpad 2 (Day now) @ ''_'' @ zpad 2 (Hour now) @ '':''
                     @ zpad 2 (Minute now) @ '':'' @ zpad 2 (Second now) @ ''.''
                     @ zpad 6 (Nanosecond now div 1000) @ ''] '';
             context =
               (if length (logConsolePrefix st) > 0
                then stamp @ ''@'' @ logConsolePrefix st @ '' #'' @ file @ '':'' @ decimal line
                     @ '' '' @ args
                else stamp @ ''#'' @ file @ '':'' @ decimal line @ '' '' @ args)
         in if ll = DEBUG then
              log_Println (SprintColor context STYLE_DEFAULT CLR_DEFAULT CLR_DEFAULT) st
            else if ll = INFO then
              log_Println (SprintColor context STYLE_DEFAULT CLR_DEFAULT CLR_DEFAULT) st
            else if ll = WARN then
              log_Println (SprintColor context STYLE_DEFAULT CLR_YELLOW CLR_DEFAULT) st
            else if ll = ERROR then
              log_Println (SprintColor context STYLE_HIGHLIGHT CLR_RED CLR_DEFAULT) st
            else if ll = FATAL then
              log_Println (SprintColor context STYLE_HIGHLIGHT CLR_PURPLE CLR_DEFAULT) st
            else
              log_Println (SprintColor context STYLE_DEFAULT CLR_DEFAULT CLR_DEFAULT) st)
      else st)"

section \<open>Deferred calls and recovery\<close>

text \<open>
  A deferred call runs when its function returns or panics. It sees the panic in flight
  and decides what is left of it: \<^verbatim>\<open>recover()\<close> stops the panic, a call that does not
  recover passes it on.
\<close>

type_synonym deferred = "panic option \<Rightarrow> state \<Rightarrow> outcome"

definition run_defer :: "deferred \<Rightarrow> outcome \<Rightarrow> outcome" where
  "run_defer d r = d (fst r) (snd r)"

text \<open>
  \<^verbatim>\<open>catchError\<close> (lines 1215-1219):
  \<^verbatim>\<open>if err := recover(); err != nil { log.Println("err", err) }\<close>.
\<close>

definition catchError :: deferred where
  "catchError p st =
     (case p of
        None \<Rightarrow> (None, st)
      | Some err \<Rightarrow> (None, log_Println (''err '' @ err) st))"

text \<open>
  \<^verbatim>\<open>defer logFile.RUnlock()\<close>: releases the lock and recovers nothing.
\<close>

definition RUnlock :: deferred where
  "RUnlock p st = (p, st)"

section \<open>The emission entry points (lines 298-965)\<close>

text \<open>
  The arguments of an emission call are Go values of any type \<open>'v\<close>. How package
  \<^verbatim>\<open>fmt\<close> renders them is no part of this package, so each entry point takes the
  rendering function it calls, \<^verbatim>\<open>fmt.Sprintln\<close> or \<^verbatim>\<open>fmt.Sprintf\<close>, as its first
  argument, and the place of the call (what \<^verbatim>\<open>runtime.Caller(2)\<close> and
  \<^verbatim>\<open>Output(2, ...)\<close> find) as its second.

  The thirty entry points share one body, textually repeated in the source:
  \<^verbatim>\<open>
  context := fmt.Sprintf("TAG %s", text)
  context = strings.TrimRight(context, "\n")
  if logFile != nil {
      logFile.RLock()
      defer logFile.RUnlock()
      logFile.logger.Output(2, context)
  }
  console(LEVEL, context)
  \<close>
\<close>

definition emit :: "string \<Rightarrow> LEVEL \<Rightarrow> string \<Rightarrow> callsite \<Rightarrow> state \<Rightarrow> outcome" where
  "emit tag ll text cs st =
     (let context = TrimRight (tag @ text)
      in case logFile st of
           None \<Rightarrow> (None, console ll context cs st)
         | Some f \<Rightarrow>
             run_defer RUnlock
               (case Output (logger f) cs context st of
                  (Some p, st1) \<Rightarrow> (Some p, st1)
                | (None, st1) \<Rightarrow> (None, console ll context cs st1)))"

text \<open>\<^verbatim>\<open>type Verbose bool\<close> and \<^verbatim>\<open>V\<close> (lines 298-307).\<close>

definition V :: "state \<Rightarrow> LEVEL \<Rightarrow> bool" where
  "V st level = (if logLevel st \<ge> level then True else False)"

text \<open>\<^verbatim>\<open>Verbose.Debug\<close> (lines 309-325).\<close>

definition Verbose_Debug :: "bool \<Rightarrow> ('v list \<Rightarrow> string) \<Rightarrow> callsite \<Rightarrow> 'v \<Rightarrow> state \<Rightarrow> outcome" where
  "Verbose_Debug v Sprintln cs arg st =
     (if \<not> v then (None, st)
      else run_defer catchError (emit ''DEBUG '' DEBUG (Sprintln [arg]) cs st))"

text \<open>\<^verbatim>\<open>Verbose.Info\<close> (lines 327-343).\<close>

definition Verbose_Info :: "bool \<Rightarrow> ('v list \<Rightarrow> string) \<Rightarrow> callsite \<Rightarrow> 'v \<Rightarrow> state \<Rightarrow> outcome" where
  "Verbose_Info v Sprintln cs arg st =
     (if \<not> v then (None, st)
      else run_defer catchError (emit ''INFO '' INFO (Sprintln [arg]) cs st))"

text \<open>\<^verbatim>\<open>Verbose.Warn\<close> (lines 345-361).\<close>

definition Verbose_Warn :: "bool \<Rightarrow> ('v list \<Rightarrow> string) \<Rightarrow> callsite \<Rightarrow> 'v \<Rightarrow> state \<Rightarrow> outcome" where
  "Verbose_Warn v Sprintln cs arg st =
     (if \<not> v then (None, st)
      else run_defer catchError (emit ''WARN '' WARN (Sprintln [arg]) cs st))"

text \<open>\<^verbatim>\<open>Verbose.Error\<close> (lines 363-378).\<close>

definition Verbose_Error :: "bool \<Rightarrow> ('v list \<Rightarrow> string) \<Rightarrow> callsite \<Rightarrow> 'v \<Rightarrow> state \<Rightarrow> outcome" where
  "Verbose_Error v Sprintln cs arg st =
     (if \<not> v then (None, st)
      else run_defer catchError (emit ''ERROR '' ERROR (Sprintln [arg]) cs st))"

text \<open>\<^verbatim>\<open>Verbose.Fatal\<close> (lines 380-395).\<close>

definition Verbose_Fatal :: "bool \<Rightarrow> ('v list \<Rightarrow> string) \<Rightarrow> callsite \<Rightarrow> 'v \<Rightarrow> state \<Rightarrow> outcome" where
  "Verbose_Fatal v Sprintln cs arg st =
     (if \<not> v then (None, st)
      else run_defer catchError (emit ''FATAL '' FATAL (Sprintln [arg]) cs st))"

text \<open>\<^verbatim>\<open>Verbose.Debugf\<close> (lines 397-412).\<close>

definition Verbose_Debugf :: "bool \<Rightarrow> (string \<Rightarrow> 'v list \<Rightarrow> string) \<Rightarrow> callsite \<Rightarrow> string \<Rightarrow> 'v list \<Rightarrow> state \<Rightarrow> outcome" where
  "Verbose_Debugf v Sprintf cs format args st =
     (if \<not> v then (None, st)
      else run_defer catchError (emit ''DEBUG '' DEBUG (Sprintf format args) cs st))"

text \<open>\<^verbatim>\<open>Verbose.Infof\<close> (lines 414-429).\<close>

definition Verbose_Infof :: "bool \<Rightarrow> (string \<Rightarrow> 'v list \<Rightarrow> string) \<Rightarrow> callsite \<Rightarrow> string \<Rightarrow> 'v list \<Rightarrow> state \<Rightarrow> outcome" where
  "Verbose_Infof v Sprintf cs format args st =
     (if \<not> v then (None, st)
      else run_defer catchError (emit ''INFO '' INFO (Sprintf format args) cs st))"

text \<open>\<^verbatim>\<open>Verbose.Warnf\<close> (lines 431-446).\<close>

definition Verbose_Warnf :: "bool \<Rightarrow> (string \<Rightarrow> 'v list \<Rightarrow> string) \<Rightarrow> callsite \<Rightarrow> string \<Rightarrow> 'v list \<Rightarrow> state \<Rightarrow> outcome" where
  "Verbose_Warnf v Sprintf cs format args st =
     (if \<not> v then (None, st)
      else run_defer catchError (emit ''WARN '' WARN (Sprintf format args) cs st))"

text \<open>\<^verbatim>\<open>Verbose.Errorf\<close> (lines 448-463).\<close>

definition Verbose_Errorf :: "bool \<Rightarrow> (string \<Rightarrow> 'v list \<Rightarrow> string) \<Rightarrow> callsite \<Rightarrow> string \<Rightarrow> 'v list \<Rightarrow> state \<Rightarrow> outcome" where
  "Verbose_Errorf v Sprintf cs format args st =
     (if \<not> v then (None, st)
      else run_defer catchError (emit ''ERROR '' ERROR (Sprintf format args) cs st))"

text \<open>\<^verbatim>\<open>Verbose.Fatalf\<close> (lines 465-480).\<close>

definition Verbose_Fatalf :: "bool \<Rightarrow> (string \<Rightarrow> 'v list \<Rightarrow> string) \<Rightarrow> callsite \<Rightarrow> string \<Rightarrow> 'v list \<Rightarrow> state \<Rightarrow> outcome" where
  "Verbose_Fatalf v Sprintf cs format args st =
     (if \<not> v then (None, st)
      else run_defer catchError (emit ''FATAL '' FATAL (Sprintf format args) cs st))"

text \<open>\<^verbatim>\<open>Verbose.Debugln\<close> (lines 482-497).\<close>

definition Verbose_Debugln :: "bool \<Rightarrow> ('v list \<Rightarrow> string) \<Rightarrow> callsite \<Rightarrow> 'v list \<Rightarrow> state \<Rightarrow> outcome" where
  "Verbose_Debugln v Sprintln cs args st =
     (if \<not> v then (None, st)
      else run_defer catchError (emit ''DEBUG '' DEBUG (Sprintln args) cs st))"

text \<open>\<^verbatim>\<open>Verbose.Infoln\<close> (lines 499-514).\<close>

definition Verbose_Infoln :: "bool \<Rightarrow> ('v list \<Rightarrow> string) \<Rightarrow> callsite \<Rightarrow> 'v list \<Rightarrow> state \<Rightarrow> outcome" where
  "Verbose_Infoln v Sprintln cs args st =
     (if \<not> v then (None, st)
      else run_defer catchError (emit ''INFO '' INFO (Sprintln args) cs st))"

text \<open>\<^verbatim>\<open>Verbose.Warnln\<close> (lines 516-531).\<close>

definition Verbose_Warnln :: "bool \<Rightarrow> ('v list \<Rightarrow> string) \<Rightarrow> callsite \<Rightarrow> 'v list \<Rightarrow> state \<Rightarrow> outcome" where
  "Verbose_Warnln v Sprintln cs args st =
     (if \<not> v then (None, st)
      else run_defer catchError (emit ''WARN '' WARN (Sprintln args) cs st))"

text \<open>\<^verbatim>\<open>Verbose.Errorln\<close> (lines 533-548).\<close>

definition Verbose_Errorln :: "bool \<Rightarrow> ('v list \<Rightarrow> string) \<Rightarrow> callsite \<Rightarrow> 'v list \<Rightarrow> state \<Rightarrow> outcome" where
  "Verbose_Errorln v Sprintln cs args st =
     (if \<not> v then (None, st)
      else run_defer catchError (emit ''ERROR '' ERROR (Sprintln args) cs st))"

text \<open>\<^verbatim>\<open>Verbose.Fatalln\<close> (lines 550-565).\<close>

definition Verbose_Fatalln :: "bool \<Rightarrow> ('v list \<Rightarrow> string) \<Rightarrow> callsite \<Rightarrow> 'v list \<Rightarrow> state \<Rightarrow> outcome" where
  "Verbose_Fatalln v Sprintln cs args st =
     (if \<not> v then (None, st)
      else run_defer catchError (emit ''FATAL '' FATAL (Sprintln args) cs st))"

text \<open>\<^verbatim>\<open>Debug\<close> (lines 579-591).\<close>

definition Debug :: "('v list \<Rightarrow> string) \<Rightarrow> callsite \<Rightarrow> 'v \<Rightarrow> state \<Rightarrow> outcome" where
  "Debug Sprintln cs arg st =
     run_defer catchError
       (if logLevel st \<le> DEBUG then emit ''DEBUG '' DEBUG (Sprintln [arg]) cs st else (None, st))"

text \<open>\<^verbatim>\<open>Info\<close> (lines 605-617).\<close>

definition Info :: "('v list \<Rightarrow> string) \<Rightarrow> callsite \<Rightarrow> 'v \<Rightarrow> state \<Rightarrow> outcome" where
  "Info Sprintln cs arg st =
     run_defer catchError
       (if logLevel st \<le> INFO then emit ''INFO '' INFO (Sprintln [arg]) cs st else (None, st))"

text \<open>\<^verbatim>\<open>Warn\<close> (lines 631-643).\<close>

definition Warn :: "('v list \<Rightarrow> string) \<Rightarrow> callsite \<Rightarrow> 'v \<Rightarrow> state \<Rightarrow> outcome" where
  "Warn Sprintln cs arg st =
     run_defer catchError
       (if logLevel st \<le> WARN then emit ''WARN '' WARN (Sprintln [arg]) cs st else (None, st))"

text \<open>\<^verbatim>\<open>Error\<close> (lines 657-669).\<close>

definition Error :: "('v list \<Rightarrow> string) \<Rightarrow> callsite \<Rightarrow> 'v \<Rightarrow> state \<Rightarrow> outcome" where
  "Error Sprintln cs arg st =
     run_defer catchError
       (if logLevel st \<le> ERROR then emit ''ERROR '' ERROR (Sprintln [arg]) cs st else (None, st))"

text \<open>\<^verbatim>\<open>Fatal\<close> (lines 683-695).\<close>

definition Fatal :: "('v list \<Rightarrow> string) \<Rightarrow> callsite \<Rightarrow> 'v \<Rightarrow> state \<Rightarrow> outcome" where
  "Fatal Sprintln cs arg st =
     run_defer catchError
       (if logLevel st \<le> FATAL then emit ''FATAL '' FATAL (Sprintln [arg]) cs st else (None, st))"

text \<open>\<^verbatim>\<open>Debugf\<close> (lines 710-722).\<close>

definition Debugf :: "(string \<Rightarrow> 'v list \<Rightarrow> string) \<Rightarrow> callsite \<Rightarrow> string \<Rightarrow> 'v list \<Rightarrow> state \<Rightarrow> outcome" where
  "Debugf Sprintf cs format args st =
     run_defer catchError
       (if logLevel st \<le> DEBUG then emit ''DEBUG '' DEBUG (Sprintf format args) cs st else (None, st))"

text \<open>\<^verbatim>\<open>Infof\<close> (lines 737-749).\<close>

definition Infof :: "(string \<Rightarrow> 'v list \<Rightarrow> string) \<Rightarrow> callsite \<Rightarrow> string \<Rightarrow> 'v list \<Rightarrow> state \<Rightarrow> outcome" where
  "Infof Sprintf cs format args st =
     run_defer catchError
       (if logLevel st \<le> INFO then emit ''INFO '' INFO (Sprintf format args) cs st else (None, st))"

text \<open>\<^verbatim>\<open>Warnf\<close> (lines 764-776).\<close>

definition Warnf :: "(string \<Rightarrow> 'v list \<Rightarrow> string) \<Rightarrow> callsite \<Rightarrow> string \<Rightarrow> 'v list \<Rightarrow> state \<Rightarrow> outcome" where
  "Warnf Sprintf cs format args st =
     run_defer catchError
       (if logLevel st \<le> WARN then emit ''WARN '' WARN (Sprintf format args) cs st else (None, st))"

text \<open>\<^verbatim>\<open>Errorf\<close> (lines 791-803).\<close>

definition Errorf :: "(string \<Rightarrow> 'v list \<Rightarrow> string) \<Rightarrow> callsite \<Rightarrow> string \<Rightarrow> 'v list \<Rightarrow> state \<Rightarrow> outcome" where
  "Errorf Sprintf cs format args st =
     run_defer catchError
       (if logLevel st \<le> ERROR then emit ''ERROR '' ERROR (Sprintf format args) cs st else (None, st))"

text \<open>\<^verbatim>\<open>Fatalf\<close> (lines 818-830).\<close>

definition Fatalf :: "(string \<Rightarrow> 'v list \<Rightarrow> string) \<Rightarrow> callsite \<Rightarrow> string \<Rightarrow> 'v list \<Rightarrow> state \<Rightarrow> outcome" where
  "Fatalf Sprintf cs format args st =
     run_defer catchError
       (if logLevel st \<le> FATAL then emit ''FATAL '' FATAL (Sprintf format args) cs st else (None, st))"

text \<open>\<^verbatim>\<open>Debugln\<close> (lines 845-857).\<close>

definition Debugln :: "('v list \<Rightarrow> string) \<Rightarrow> callsite \<Rightarrow> 'v list \<Rightarrow> state \<Rightarrow> outcome" where
  "Debugln Sprintln cs args st =
     run_defer catchError
       (if logLevel st \<le> DEBUG then emit ''DEBUG '' DEBUG (Sprintln args) cs st else (None, st))"

text \<open>\<^verbatim>\<open>Infoln\<close> (lines 872-884).\<close>

definition Infoln :: "('v list \<Rightarrow> string) \<Rightarrow> callsite \<Rightarrow> 'v list \<Rightarrow> state \<Rightarrow> outcome" where
  "Infoln Sprintln cs args st =
     run_defer catchError
       (if logLevel st \<le> INFO then emit ''INFO '' INFO (Sprintln args) cs st else (None, st))"

text \<open>\<^verbatim>\<open>Warnln\<close> (lines 899-911).\<close>

definition Warnln :: "('v list \<Rightarrow> string) \<Rightarrow> callsite \<Rightarrow> 'v list \<Rightarrow> state \<Rightarrow> outcome" where
  "Warnln Sprintln cs args st =
     run_defer catchError
       (if logLevel st \<le> WARN then emit ''WARN '' WARN (Sprintln args) cs st else (None, st))"

text \<open>\<^verbatim>\<open>Errorln\<close> (lines 926-938).\<close>

definition Errorln :: "('v list \<Rightarrow> string) \<Rightarrow> callsite \<Rightarrow> 'v list \<Rightarrow> state \<Rightarrow> outcome" where
  "Errorln Sprintln cs args st =
     run_defer catchError
       (if logLevel st \<le> ERROR then emit ''ERROR '' ERROR (Sprintln args) cs st else (None, st))"

text \<open>\<^verbatim>\<open>Fatalln\<close> (lines 953-965).\<close>

definition Fatalln :: "('v list \<Rightarrow> string) \<Rightarrow> callsite \<Rightarrow> 'v list \<Rightarrow> state \<Rightarrow> outcome" where
  "Fatalln Sprintln cs args st =
     run_defer catchError
       (if logLevel st \<le> FATAL then emit ''FATAL '' FATAL (Sprintln args) cs st else (None, st))"

section \<open>File names (lines 272-296 and 1104-1125)\<close>

text \<open>
  Both \<^verbatim>\<open>newlogfile\<close> and \<^verbatim>\<open>newDumpFile\<close> end in the same loop over the suffix:
  \<^verbatim>\<open>
  n := 1
  for {
      fn = fmt.Sprintf("%s_%d.log", filename, n)
      if !isFileExist(fn) { break }
      n += 1
  }
  \<close>
  (in \<^verbatim>\<open>newDumpFile\<close> the stem is \<^verbatim>\<open>dir\<close> followed by \<^verbatim>\<open>filename\<close>). The loop has no
  bound, so it is a partial function: \<open>None\<close> is the loop that never ends. The
  counter is a natural: it starts at 1 and only grows, and a 64-bit counter cannot
  overflow before that many files exist.
\<close>

partial_function (option) suffixLoop :: "state \<Rightarrow> string \<Rightarrow> nat \<Rightarrow> string option" where
  "suffixLoop st filename n =
     (if \<not> isFileExist st (filename @ ''_'' @ decimal n @ ''.log'')
      then Some (filename @ ''_'' @ decimal n @ ''.log'')
      else suffixLoop st filename (n + 1))"

definition newlogfile :: "LOG_FILE \<Rightarrow> state \<Rightarrow> (string \<times> state) option" where
  "newlogfile f st =
     (let dir = log_dir f @ ''/'' @ zpad 4 (Year (timestamp f)) @ ''-''
                @ zpad 2 (Month (timestamp f)) @ ''-'' @ zpad 2 (Day (timestamp f)) @ ''/'';
          st1 = snd (MkdirAll dir st);
          filename = dir @ ''/'' @ log_filename f @ ''.'' @ zpad 2 (Hour (timestamp f)) @ ''_''
                     @ zpad 2 (Minute (timestamp f)) @ ''_'' @ zpad 2 (Second (timestamp f));
          fn = filename @ ''.log''
      in if \<not> isFileExist st1 fn then Some (fn, st1)
         else map_option (\<lambda>fn. (fn, st1)) (suffixLoop st1 filename 1))"

definition newDumpFile :: "state \<Rightarrow> (string \<times> state) option" where
  "newDumpFile st =
     (let now = clock st;
          filename = ''exceptions.'' @ zpad 2 (Hour now) @ ''_'' @ zpad 2 (Minute now) @ ''_''
                     @ zpad 2 (Second now);
          dir = ''./exceptions/'' @ zpad 4 (Year now) @ ''-'' @ zpad 2 (Month now) @ ''-''
                @ zpad 2 (Day now) @ ''/'';
          st1 = snd (MkdirAll dir st);
          fn = dir @ filename @ ''.log''
      in if \<not> isFileExist st1 fn then Some (fn, st1)
         else map_option (\<lambda>fn. (fn, st1)) (suffixLoop st1 (dir @ filename) 1))"

section \<open>Rotation (lines 979-1090 and 1255-1263)\<close>

definition checkFileDate :: "LOG_FILE \<Rightarrow> state \<Rightarrow> bool" where
  "checkFileDate f st = (if YearDay (clock st) \<noteq> YearDay (timestamp f) then True else False)"

definition checkFileSize :: "LOG_FILE \<Rightarrow> state \<Rightarrow> bool" where
  "checkFileSize f st =
     (case Stat st (logfilepath f) of
        None \<Rightarrow> False
      | Some fileInfo \<Rightarrow> if Size fileInfo \<ge> logMaxSize then True else False)"

definition checkFileExist :: "LOG_FILE \<Rightarrow> state \<Rightarrow> bool" where
  "checkFileExist f st = (if \<not> isFileExist st (logfilepath f) then True else False)"

definition isMustRename :: "LOG_FILE \<Rightarrow> state \<Rightarrow> bool \<times> state" where
  "isMustRename f st =
     (if checkFileDate f st then (True, st)
      else if checkFileSize f st then (True, st)
      else if checkFileExist f st then (True, st)
      else (False, snd (MkdirAll (log_dir f) st)))"

text \<open>
  \<^verbatim>\<open>rename\<close> works on the handle \<^verbatim>\<open>f\<close> and reads \<^verbatim>\<open>logFile.logfile\<close> for the new logger;
  its only caller passes the package's handle, so both are the same object and the
  result is stored as the package's handle.
\<close>

definition rename :: "LOG_FILE \<Rightarrow> state \<Rightarrow> state option" where
  "rename f st =
     (let f1 = f\<lparr>timestamp := clock st\<rparr>
      in case newlogfile f1 st of
           None \<Rightarrow> None
         | Some (fn, st1) \<Rightarrow>
             (let st2 = (case logfile f1 of None \<Rightarrow> st1 | Some fd \<Rightarrow> Close fd st1);
                  opened = OpenFile fn st2;
                  f2 = f1\<lparr>logfile := fst opened\<rparr>;
                  f3 = f2\<lparr>logger := Some \<lparr>out = logfile f2, lflags = logFlags\<rparr>\<rparr>;
                  f4 = f3\<lparr>logfilepath := fn\<rparr>
              in Some ((snd opened)\<lparr>logFile := Some f4\<rparr>)))"

definition fileCheck :: "state \<Rightarrow> outcome option" where
  "fileCheck st =
     (case logFile st of
        None \<Rightarrow> Some (run_defer catchError (None, st))
      | Some f \<Rightarrow>
          (case isMustRename f st of
             (True, st1) \<Rightarrow>
               (case rename f st1 of
                  None \<Rightarrow> None
                | Some st2 \<Rightarrow> Some (run_defer catchError (None, st2)))
           | (False, st1) \<Rightarrow> Some (run_defer catchError (None, st1))))"

section \<open>Initialization (lines 170-198)\<close>

text \<open>
  \<^verbatim>\<open>fileDir[len(fileDir)-1]\<close> is read before anything else; on the empty string the index
  is \<open>-1\<close> and the read panics. The background monitor started at the end
  (\<^verbatim>\<open>go fileMonitor()\<close>) calls \<^verbatim>\<open>fileCheck\<close> every ten seconds and is not part of the
  sequential model.
\<close>

definition Initialize :: "string \<Rightarrow> string \<Rightarrow> state \<Rightarrow> outcome option" where
  "Initialize fileDir fileName st =
     (if fileDir = [] then Some (Some ''runtime error: index out of range [-1]'', st)
      else
        (let dir = (if last fileDir = CHR 0x5C \<or> last fileDir = CHR ''/''
                    then butlast fileDir else fileDir);
             f = \<lparr>log_dir = dir, log_filename = fileName, timestamp = clock st,
                  logfilepath = [], logfile = None, logger = None\<rparr>
         in case newlogfile f (st\<lparr>logFile := Some f\<rparr>) of
              None \<Rightarrow> None
            | Some (fn, st1) \<Rightarrow>
                (case OpenFile fn st1 of
                   (None, st2) \<Rightarrow> Some (Some (''open '' @ fn), st2)
                 | (Some fd, st2) \<Rightarrow>
                     Some (None, st2\<lparr>logFile := Some (f\<lparr>logfile := Some fd,
                       logger := Some \<lparr>out = Some fd, lflags = logFlags\<rparr>,
                       logfilepath := fn\<rparr>)\<rparr>))))"

section \<open>Crash capture (lines 235-258)\<close>

text \<open>
  \<^verbatim>\<open>CatchException\<close> is written to be deferred, so it is a deferred call: it sees the
  panic in flight. \<^verbatim>\<open>recover()\<close> returns nil when there is none. The value of the panic
  is printed with the verb \<^verbatim>\<open>%#v\<close>, whose rendering is the first argument; the text of
  \<^verbatim>\<open>debug.Stack()\<close> is the second.
\<close>

definition strLog :: "string \<Rightarrow> string \<Rightarrow> string" where
  "strLog err stack =
     [newline] @ replicate 79 (CHR ''='') @ [newline]
     @ ''EXCEPTION: '' @ err @ replicate 19 tab @ [newline]
     @ replicate 79 (CHR ''='') @ replicate 2 tab @ [newline]
     @ stack"

definition CatchException :: "(panic \<Rightarrow> string) \<Rightarrow> string \<Rightarrow> panic option \<Rightarrow> state \<Rightarrow> outcome option" where
  "CatchException GoSyntax stack p st =
     (case p of
        None \<Rightarrow> Some (None, st)
      | Some err \<Rightarrow>
          (case newDumpFile st of
             None \<Rightarrow> None
           | Some (fn, st1) \<Rightarrow>
               (case OpenFile fn st1 of
                  (None, st2) \<Rightarrow> Some (None, st2)
                | (Some fd, st2) \<Rightarrow>
                    (let lg = \<lparr>out = Some fd, lflags = logDumpExceptionFlag\<rparr>;
                         text = strLog (GoSyntax err) stack;
                         st3 = snd (Output (Some lg) \<lparr>cfile = ''logger.go'', cline = 255\<rparr>
                                      (text @ [newline]) st2);
                         st4 = fmt_Println text st3
                     in Some (None, Close fd st4)))))"


section \<open>Calls, sinks and observations\<close>

text \<open>
  The fifteen call shapes of the interface, the severity each one names, and the two
  families of entry points that serve them: the package-level functions and the methods
  of a \<^verbatim>\<open>Verbose\<close> value.
\<close>

datatype 'v call =
    Call_Debug 'v | Call_Info 'v | Call_Warn 'v | Call_Error 'v | Call_Fatal 'v
  | Call_Debugf string "'v list" | Call_Infof string "'v list" | Call_Warnf string "'v list"
  | Call_Errorf string "'v list" | Call_Fatalf string "'v list"
  | Call_Debugln "'v list" | Call_Infoln "'v list" | Call_Warnln "'v list"
  | Call_Errorln "'v list" | Call_Fatalln "'v list"

fun severity :: "'v call \<Rightarrow> LEVEL" where
  "severity (Call_Debug _) = DEBUG"
| "severity (Call_Info _) = INFO"
| "severity (Call_Warn _) = WARN"
| "severity (Call_Error _) = ERROR"
| "severity (Call_Fatal _) = FATAL"
| "severity (Call_Debugf _ _) = DEBUG"
| "severity (Call_Infof _ _) = INFO"
| "severity (Call_Warnf _ _) = WARN"
| "severity (Call_Errorf _ _) = ERROR"
| "severity (Call_Fatalf _ _) = FATAL"
| "severity (Call_Debugln _) = DEBUG"
| "severity (Call_Infoln _) = INFO"
| "severity (Call_Warnln _) = WARN"
| "severity (Call_Errorln _) = ERROR"
| "severity (Call_Fatalln _) = FATAL"

fun plain :: "('v list \<Rightarrow> string) \<Rightarrow> (string \<Rightarrow> 'v list \<Rightarrow> string) \<Rightarrow> callsite \<Rightarrow> 'v call \<Rightarrow> state \<Rightarrow> outcome" where
  "plain Sprintln Sprintf cs (Call_Debug a) = Debug Sprintln cs a"
| "plain Sprintln Sprintf cs (Call_Info a) = Info Sprintln cs a"
| "plain Sprintln Sprintf cs (Call_Warn a) = Warn Sprintln cs a"
| "plain Sprintln Sprintf cs (Call_Error a) = Error Sprintln cs a"
| "plain Sprintln Sprintf cs (Call_Fatal a) = Fatal Sprintln cs a"
| "plain Sprintln Sprintf cs (Call_Debugf fm as) = Debugf Sprintf cs fm as"
| "plain Sprintln Sprintf cs (Call_Infof fm as) = Infof Sprintf cs fm as"
| "plain Sprintln Sprintf cs (Call_Warnf fm as) = Warnf Sprintf cs fm as"
| "plain Sprintln Sprintf cs (Call_Errorf fm as) = Errorf Sprintf cs fm as"
| "plain Sprintln Sprintf cs (Call_Fatalf fm as) = Fatalf Sprintf cs fm as"
| "plain Sprintln Sprintf cs (Call_Debugln as) = Debugln Sprintln cs as"
| "plain Sprintln Sprintf cs (Call_Infoln as) = Infoln Sprintln cs as"
| "plain Sprintln Sprintf cs (Call_Warnln as) = Warnln Sprintln cs as"
| "plain Sprintln Sprintf cs (Call_Errorln as) = Errorln Sprintln cs as"
| "plain Sprintln Sprintf cs (Call_Fatalln as) = Fatalln Sprintln cs as"

fun verbose :: "bool \<Rightarrow> ('v list \<Rightarrow> string) \<Rightarrow> (string \<Rightarrow> 'v list \<Rightarrow> string) \<Rightarrow> callsite \<Rightarrow> 'v call \<Rightarrow> state \<Rightarrow> outcome" where
  "verbose v Sprintln Sprintf cs (Call_Debug a) = Verbose_Debug v Sprintln cs a"
| "verbose v Sprintln Sprintf cs (Call_Info a) = Verbose_Info v Sprintln cs a"
| "verbose v Sprintln Sprintf cs (Call_Warn a) = Verbose_Warn v Sprintln cs a"
| "verbose v Sprintln Sprintf cs (Call_Error a) = Verbose_Error v Sprintln cs a"
| "verbose v Sprintln Sprintf cs (Call_Fatal a) = Verbose_Fatal v Sprintln cs a"
| "verbose v Sprintln Sprintf cs (Call_Debugf fm as) = Verbose_Debugf v Sprintf cs fm as"
| "verbose v Sprintln Sprintf cs (Call_Infof fm as) = Verbose_Infof v Sprintf cs fm as"
| "verbose v Sprintln Sprintf cs (Call_Warnf fm as) = Verbose_Warnf v Sprintf cs fm as"
| "verbose v Sprintln Sprintf cs (Call_Errorf fm as) = Verbose_Errorf v Sprintf cs fm as"
| "verbose v Sprintln Sprintf cs (Call_Fatalf fm as) = Verbose_Fatalf v Sprintf cs fm as"
| "verbose v Sprintln Sprintf cs (Call_Debugln as) = Verbose_Debugln v Sprintln cs as"
| "verbose v Sprintln Sprintf cs (Call_Infoln as) = Verbose_Infoln v Sprintln cs as"
| "verbose v Sprintln Sprintf cs (Call_Warnln as) = Verbose_Warnln v Sprintln cs as"
| "verbose v Sprintln Sprintf cs (Call_Errorln as) = Verbose_Errorln v Sprintln cs as"
| "verbose v Sprintln Sprintf cs (Call_Fatalln as) = Verbose_Fatalln v Sprintln cs as"

text \<open>
  The handle is either absent or has a logger: what \<^verbatim>\<open>Initialize\<close> leaves when it
  returns and what every rotation keeps.
\<close>

definition handle_ok :: "state \<Rightarrow> bool" where
  "handle_ok st = (case logFile st of None \<Rightarrow> True | Some f \<Rightarrow> logger f \<noteq> None)"

text \<open>The handle's logger writes to a descriptor that is open.\<close>

definition file_sink :: "state \<Rightarrow> bool" where
  "file_sink st =
     (case logFile st of
        None \<Rightarrow> False
      | Some f \<Rightarrow>
          (case logger f of
             None \<Rightarrow> False
           | Some lg \<Rightarrow> (case out lg of None \<Rightarrow> False | Some fd \<Rightarrow> fdtab st fd \<noteq> None)))"

text \<open>The lines on the console and the writes to files, among the events.\<close>

definition console_lines :: "state \<Rightarrow> string list" where
  "console_lines st = [s. Stderr s \<leftarrow> events st]"

definition file_writes :: "state \<Rightarrow> (string \<times> string) list" where
  "file_writes st = [(p, b). FileWrite p b \<leftarrow> events st]"




text \<open>
  A moment of the clock and the state of a process that has just started: the initial
  values of the package variables (lines 75-80), an empty file system, the three
  standard descriptors taken.
\<close>

definition t0 :: gotime where
  "t0 = \<lparr>Year = 2015, Month = 5, Day = 16, Hour = 10, Minute = 22, Second = 33,
          Nanosecond = 123456789\<rparr>"

definition start :: state where
  "start = \<lparr>logLevel = ALL_LEVEL, logConsole = True, logConsolePrefix = [], logFile = None,
             clock = t0, files = Map.empty, denied = (\<lambda>p. False), fdtab = Map.empty,
             nextfd = 3, events = []\<rparr>"

definition here :: callsite where
  "here = \<lparr>cfile = ''/src/app/main.go'', cline = 42\<rparr>"

text \<open>\<^verbatim>\<open>fmt.Sprintln\<close> on operands that are strings: spaces between them, a newline after.\<close>

fun Sprintln_strings :: "string list \<Rightarrow> string" where
  "Sprintln_strings [] = [newline]"
| "Sprintln_strings [x] = x @ [newline]"
| "Sprintln_strings (x # y # xs) = x @ '' '' @ Sprintln_strings (y # xs)"

text \<open>
  The names that the two file name functions try for a stem, in the order they try them:
  the stem itself, then the stem with the suffixes 1, 2, ...
\<close>

definition candidate :: "string \<Rightarrow> nat \<Rightarrow> string" where
  "candidate stem k = (if k = 0 then stem @ ''.log'' else stem @ ''_'' @ decimal k @ ''.log'')"

text \<open>
  The directory and the stem of the names that \<^verbatim>\<open>newlogfile\<close> computes for a handle, and
  those that \<^verbatim>\<open>newDumpFile\<close> computes for a reading of the clock.
\<close>

definition dateDir :: "LOG_FILE \<Rightarrow> string" where
  "dateDir f = log_dir f @ ''/'' @ zpad 4 (Year (timestamp f)) @ ''-''
               @ zpad 2 (Month (timestamp f)) @ ''-'' @ zpad 2 (Day (timestamp f)) @ ''/''"

definition logStem :: "LOG_FILE \<Rightarrow> string" where
  "logStem f = dateDir f @ ''/'' @ log_filename f @ ''.'' @ zpad 2 (Hour (timestamp f)) @ ''_''
               @ zpad 2 (Minute (timestamp f)) @ ''_'' @ zpad 2 (Second (timestamp f))"

definition dumpDir :: "gotime \<Rightarrow> string" where
  "dumpDir t = ''./exceptions/'' @ zpad 4 (Year t) @ ''-'' @ zpad 2 (Month t) @ ''-''
               @ zpad 2 (Day t) @ ''/''"

definition dumpStem :: "gotime \<Rightarrow> string" where
  "dumpStem t = dumpDir t @ ''exceptions.'' @ zpad 2 (Hour t) @ ''_'' @ zpad 2 (Minute t) @ ''_''
                @ zpad 2 (Second t)"

text \<open>
  Five seconds into the next day; the handle and the state of a process after
  \<^verbatim>\<open>Initialize("./log/", "srv")\<close> at \<open>t0\<close>; the same state once a second log file of
  that second exists.
\<close>

definition t1 :: gotime where
  "t1 = \<lparr>Year = 2015, Month = 5, Day = 17, Hour = 0, Minute = 0, Second = 5, Nanosecond = 0\<rparr>"

definition h0 :: LOG_FILE where
  "h0 = \<lparr>log_dir = ''./log'', log_filename = ''srv'', timestamp = t0,
          logfilepath = ''./log/2015-05-16//srv.10_22_33.log'', logfile = Some 3,
          logger = Some \<lparr>out = Some 3, lflags = logFlags\<rparr>\<rparr>"

definition running :: state where
  "running = start\<lparr>logFile := Some h0,
     files := [''./log/2015-05-16/'' \<mapsto> \<lparr>Size = 4096, IsDir = True\<rparr>,
               ''./log/2015-05-16//srv.10_22_33.log'' \<mapsto> \<lparr>Size = 0, IsDir = False\<rparr>],
     fdtab := [3 \<mapsto> ''./log/2015-05-16//srv.10_22_33.log''],
     nextfd := 4\<rparr>"

definition running2 :: state where
  "running2 = snd (OpenFile ''./log/2015-05-16//srv.10_22_33_1.log'' running)"

text \<open>
  The running process on the next day, when the system refuses to create the log file of
  that moment; a Go string as the verb \<^verbatim>\<open>%#v\<close> prints it (no character of it needing
  an escape); a fresh process with the console off, when the system refuses to create
  the dump file of the moment.
\<close>

definition blocked :: state where
  "blocked = running\<lparr>clock := t1, denied := (\<lambda>p. p = ''./log/2015-05-17//srv.00_00_05.log'')\<rparr>"

definition quoted :: "string \<Rightarrow> string" where
  "quoted s = [CHR 0x22] @ s @ [CHR 0x22]"

definition nodump :: state where
  "nodump = start\<lparr>logConsole := False,
               denied := (\<lambda>p. p = ''./exceptions/2015-05-16/exceptions.10_22_33.log'')\<rparr>"

section \<open>Properties of the emission entry points\<close>

lemma console_off: "\<not> logConsole st \<Longrightarrow> console ll a cs st = st"
  by (simp add: console_def)

lemma log_Println_shape: "\<exists>s'. log_Println s st = st\<lparr>events := events st @ [Stderr s']\<rparr>"
  unfolding log_Println_def by (rule exI) (rule refl)

lemma console_on:
  "logConsole st \<Longrightarrow> \<exists>s. console ll a cs st = st\<lparr>events := events st @ [Stderr s]\<rparr>"
  by (simp add: console_def Let_def log_Println_shape)

lemma Write_sink:
  "fdtab st fd = Some p \<Longrightarrow>
   \<exists>fs. Write (Some fd) b st = st\<lparr>files := fs, events := events st @ [FileWrite p b]\<rparr>"
  unfolding Write_def by (simp only: option.case) (rule exI, rule refl)

lemma Write_nosink:
  "f = None \<or> (\<exists>fd. f = Some fd \<and> fdtab st fd = None) \<Longrightarrow> Write f b st = st"
  by (auto simp: Write_def)


lemma console_shape:
  "\<exists>cl. console ll a cs st = st\<lparr>events := events st @ cl\<rparr>
     \<and> (if logConsole st then \<exists>s. cl = [Stderr s] else cl = [])"
proof (cases "logConsole st")
  case True
  then obtain s where "console ll a cs st = st\<lparr>events := events st @ [Stderr s]\<rparr>"
    using console_on by blast
  with True show ?thesis by auto
next
  case False
  then have "console ll a cs st = st\<lparr>events := events st @ []\<rparr>"
    by (simp add: console_off)
  with False show ?thesis by auto
qed

lemma Write_shape:
  "\<exists>fw fs. Write f b st = st\<lparr>files := fs, events := events st @ fw\<rparr>
     \<and> (if (\<exists>fd. f = Some fd \<and> fdtab st fd \<noteq> None) then \<exists>p b. fw = [FileWrite p b] else fw = [])"
proof (cases "\<exists>fd. f = Some fd \<and> fdtab st fd \<noteq> None")
  case True
  then obtain fd p where "f = Some fd" "fdtab st fd = Some p" by auto
  then obtain fs where "Write f b st = st\<lparr>files := fs, events := events st @ [FileWrite p b]\<rparr>"
    using Write_sink by blast
  with True show ?thesis by auto
next
  case False
  then have "Write f b st = st" by (intro Write_nosink) (cases f; auto)
  then have "Write f b st = st\<lparr>files := files st, events := events st @ []\<rparr>" by simp
  with False show ?thesis by metis
qed

lemma emit_shape:
  assumes "handle_ok st"
  shows "\<exists>fw cl fs. emit tag ll text cs st = (None, st\<lparr>files := fs, events := events st @ fw @ cl\<rparr>)
     \<and> (if file_sink st then \<exists>p b. fw = [FileWrite p b] else fw = [])
     \<and> (if logConsole st then \<exists>s. cl = [Stderr s] else cl = [])"
proof (cases "logFile st")
  case None
  obtain cl where cl: "console ll (TrimRight (tag @ text)) cs st = st\<lparr>events := events st @ cl\<rparr>"
      "if logConsole st then \<exists>s. cl = [Stderr s] else cl = []"
    using console_shape by blast
  have "emit tag ll text cs st = (None, st\<lparr>files := files st, events := events st @ [] @ cl\<rparr>)"
    using None cl(1) by (simp add: emit_def)
  moreover have "\<not> file_sink st" using None by (simp add: file_sink_def)
  ultimately show ?thesis using cl(2) by (metis (full_types))
next
  case (Some f)
  then obtain lg where lg: "logger f = Some lg"
    using assms by (auto simp: handle_ok_def)
  define line where "line = formatHeader (lflags lg) (clock st) cs @ endLine (TrimRight (tag @ text))"
  obtain fw fs where w: "Write (out lg) line st = st\<lparr>files := fs, events := events st @ fw\<rparr>"
      "if (\<exists>fd. out lg = Some fd \<and> fdtab st fd \<noteq> None) then \<exists>p b. fw = [FileWrite p b] else fw = []"
    using Write_shape by blast
  define st1 where "st1 = st\<lparr>files := fs, events := events st @ fw\<rparr>"
  obtain cl where cl: "console ll (TrimRight (tag @ text)) cs st1 = st1\<lparr>events := events st1 @ cl\<rparr>"
      "if logConsole st1 then \<exists>s. cl = [Stderr s] else cl = []"
    using console_shape by blast
  have "emit tag ll text cs st = (None, st\<lparr>files := fs, events := events st @ fw @ cl\<rparr>)"
    using Some lg w(1) cl(1)
    by (simp add: emit_def Output_def run_defer_def RUnlock_def line_def st1_def)
  moreover have "file_sink st = (\<exists>fd. out lg = Some fd \<and> fdtab st fd \<noteq> None)"
    using Some lg by (auto simp: file_sink_def split: option.splits)
  moreover have "logConsole st1 = logConsole st" by (simp add: st1_def)
  ultimately show ?thesis using w(2) cl(2) by (metis (full_types))
qed


lemma catchError_normal: "run_defer catchError (None, st) = (None, st)"
  by (simp add: run_defer_def catchError_def)

lemma catchError_recovers: "fst (run_defer catchError r) = None"
  by (cases r) (simp add: run_defer_def catchError_def split: option.splits)

lemma plain_gate:
  "\<exists>tag text. plain Sprintln Sprintf cs c st =
     run_defer catchError
       (if logLevel st \<le> severity c then emit tag (severity c) text cs st else (None, st))"
  by (cases c)
    (simp_all add: Debug_def Info_def Warn_def Error_def Fatal_def Debugf_def Infof_def Warnf_def
      Errorf_def Fatalf_def Debugln_def Infoln_def Warnln_def Errorln_def Fatalln_def, blast+)

lemma verbose_gate:
  "\<exists>tag text. verbose v Sprintln Sprintf cs c st =
     (if \<not> v then (None, st) else run_defer catchError (emit tag (severity c) text cs st))"
  by (cases c)
    (simp_all add: Verbose_Debug_def Verbose_Info_def Verbose_Warn_def Verbose_Error_def
      Verbose_Fatal_def Verbose_Debugf_def Verbose_Infof_def Verbose_Warnf_def Verbose_Errorf_def
      Verbose_Fatalf_def Verbose_Debugln_def Verbose_Infoln_def Verbose_Warnln_def
      Verbose_Errorln_def Verbose_Fatalln_def, blast+)


lemma emit_events:
  assumes "handle_ok st"
  shows "fst (emit tag ll text cs st) = None"
    and "(events (snd (emit tag ll text cs st)) \<noteq> events st) = (logConsole st \<or> file_sink st)"
    and "(console_lines (snd (emit tag ll text cs st)) \<noteq> console_lines st) = logConsole st"
    and "(file_writes (snd (emit tag ll text cs st)) \<noteq> file_writes st) = file_sink st"
proof -
  obtain fw cl fs where e: "emit tag ll text cs st = (None, st\<lparr>files := fs, events := events st @ fw @ cl\<rparr>)"
     "if file_sink st then \<exists>p b. fw = [FileWrite p b] else fw = []"
     "if logConsole st then \<exists>s. cl = [Stderr s] else cl = []"
    using emit_shape [OF assms] by blast
  show "fst (emit tag ll text cs st) = None" using e(1) by simp
  show "(events (snd (emit tag ll text cs st)) \<noteq> events st) = (logConsole st \<or> file_sink st)"
    using e by (auto split: if_splits)
  show "(console_lines (snd (emit tag ll text cs st)) \<noteq> console_lines st) = logConsole st"
    using e by (auto simp: console_lines_def split: if_splits)
  show "(file_writes (snd (emit tag ll text cs st)) \<noteq> file_writes st) = file_sink st"
    using e by (auto simp: file_writes_def split: if_splits)
qed

text \<open>
  The condition on the handle that the results below assume is the one the code keeps:
  a successful \<^verbatim>\<open>Initialize\<close> leaves a handle with a logger on an open file, and every
  rotation leaves a handle with a logger.
\<close>

lemma Initialize_handle_ok:
  "Initialize fileDir fileName st = Some (None, st') \<Longrightarrow> handle_ok st' \<and> file_sink st'"
  by (auto simp: Initialize_def Let_def handle_ok_def file_sink_def OpenFile_def
      split: option.splits if_splits prod.splits)

lemma rename_handle_ok: "rename f st = Some st' \<Longrightarrow> handle_ok st'"
  by (auto simp: rename_def Let_def handle_ok_def split: option.splits prod.splits)




lemma plain_gate_all:
  "\<exists>tag text. \<forall>st. plain Sprintln Sprintf cs c st =
     run_defer catchError
       (if logLevel st \<le> severity c then emit tag (severity c) text cs st else (None, st))"
  by (cases c)
    (simp_all add: Debug_def Info_def Warn_def Error_def Fatal_def Debugf_def Infof_def Warnf_def
      Errorf_def Fatalf_def Debugln_def Infoln_def Warnln_def Errorln_def Fatalln_def, blast+)


lemma emit_panics_without_logger:
  "logFile st = Some f \<Longrightarrow> logger f = None \<Longrightarrow> fst (emit tag ll text cs st) \<noteq> None"
  by (simp add: emit_def Output_def run_defer_def RUnlock_def)

text \<open>
  C3. None of the thirty emission entry points (the fifteen package-level functions and
  the fifteen methods of a \<^verbatim>\<open>Verbose\<close> value) lets a panic reach its caller, whatever
  the arguments, the handle (absent, without a logger, with a closed or nil file), the
  threshold and the console flag: the outcome never carries a panic. A panic inside the
  body, such as the nil logger of \<open>emit_panics_without_logger\<close>, is recovered by the
  deferred \<^verbatim>\<open>catchError\<close>.
\<close>

theorem entry_points_never_panic:
  "fst (plain Sprintln Sprintf cs c st) = None \<and> fst (verbose v Sprintln Sprintf cs c st) = None"
proof
  obtain tg tx where "plain Sprintln Sprintf cs c st =
     run_defer catchError
       (if logLevel st \<le> severity c then emit tg (severity c) tx cs st else (None, st))"
    using plain_gate by blast
  then show "fst (plain Sprintln Sprintf cs c st) = None"
    by (simp only: catchError_recovers)
  obtain tg tx where "verbose v Sprintln Sprintf cs c st =
     (if \<not> v then (None, st) else run_defer catchError (emit tg (severity c) tx cs st))"
    using verbose_gate by blast
  then show "fst (verbose v Sprintln Sprintf cs c st) = None"
    by (cases v) (simp_all only: catchError_recovers if_True if_False not_True_eq_False not_False_eq_True fst_conv)
qed

lemma V_iff: "V st level = (level \<le> logLevel st)"
  by (simp add: V_def)

text \<open>
  C2. The claim is that a method of \<^verbatim>\<open>V(L)\<close> emits exactly when the package-level
  function of severity L emits, that is when T <= L. The gate of \<^verbatim>\<open>V\<close> is
  \<^verbatim>\<open>logLevel >= level\<close>, the opposite comparison (\<open>V_iff\<close>). Under the default
  threshold ALL, \<^verbatim>\<open>V(DEBUG)\<close> is false and \<^verbatim>\<open>V(DEBUG).Debug("hello")\<close> does nothing,
  while \<^verbatim>\<open>Debug("hello")\<close> writes to the console.
\<close>

theorem V_gate_drops_debug_at_default_threshold:
  "V start DEBUG = False
   \<and> Verbose_Debug (V start DEBUG) Sprintln_strings here ''hello'' start = (None, start)
   \<and> events (snd (Debug Sprintln_strings here ''hello'' start)) \<noteq> events start"
  by (simp add: V_def start_def ALL_LEVEL_def DEBUG_def Verbose_Debug_def Debug_def emit_def
      run_defer_def catchError_def console_def log_Println_def Let_def)

text \<open>
  C10. \<^verbatim>\<open>Initialize\<close> with the empty string as directory panics with an index out of
  range, and the state is the one it was called in: no handle has been stored and the
  file system has not been touched.
\<close>

theorem Initialize_empty_directory_panics:
  "Initialize [] fileName st = Some (Some ''runtime error: index out of range [-1]'', st)"
  by (simp add: Initialize_def)

lemma file_writes_logConsole [simp]: "file_writes (st\<lparr>logConsole := b\<rparr>) = file_writes st"
  by (simp add: file_writes_def)

lemma file_writes_console [simp]: "file_writes (console ll a cs st) = file_writes st"
  using console_shape [of ll a cs st] by (auto simp: file_writes_def split: if_splits)

lemma console_lines_catchError:
  "fst r = None \<Longrightarrow> snd (run_defer catchError r) = snd r"
  by (cases r) (simp add: run_defer_def catchError_def)

lemma file_writes_catchError [simp]:
  "file_writes (snd (run_defer catchError r)) = file_writes (snd r)"
  by (cases r) (simp add: run_defer_def catchError_def log_Println_def file_writes_def split: option.splits)




lemma handle_ok_logConsole [simp]: "handle_ok (st\<lparr>logConsole := b\<rparr>) = handle_ok st"
  by (simp add: handle_ok_def)

lemma emit_returns:
  "handle_ok st \<Longrightarrow> run_defer catchError (emit tg ll tx cs st) = emit tg ll tx cs st"
  using emit_events(1) [of st tg ll tx cs]
  by (cases "emit tg ll tx cs st") (simp add: catchError_normal)



lemma decimal_nonempty: "decimal n \<noteq> []"
  by (subst decimal.simps) simp

lemma digit_inj: "a < 10 \<Longrightarrow> b < 10 \<Longrightarrow> digit a = digit b \<Longrightarrow> a = b"
proof -
  assume a: "a < 10" and b: "b < 10" and e: "digit a = digit b"
  have d: "distinct ''0123456789''" by simp
  have "length ''0123456789'' = 10" by simp
  with a b e d show "a = b"
    unfolding digit_def by (metis nth_eq_iff_index_eq)
qed

lemma decimal_inj: "decimal m = decimal n \<Longrightarrow> m = n"
proof (induction m arbitrary: n rule: decimal.induct)
  case (1 m)
  show ?case
  proof (cases "m < 10")
    case True
    then have dm: "decimal m = [digit m]" by (subst decimal.simps) simp
    show ?thesis
    proof (cases "n < 10")
      case True
      then have "decimal n = [digit n]" by (subst decimal.simps) simp
      with dm "1.prems" have "digit m = digit n" by simp
      with \<open>m < 10\<close> \<open>n < 10\<close> show ?thesis by (rule digit_inj)
    next
      case False
      then have "decimal n = decimal (n div 10) @ [digit (n mod 10)]"
        by (subst decimal.simps) simp
      with dm "1.prems" have "decimal (n div 10) = []" by simp
      then show ?thesis using decimal_nonempty by blast
    qed
  next
    case False
    then have dm: "decimal m = decimal (m div 10) @ [digit (m mod 10)]"
      by (subst decimal.simps) simp
    show ?thesis
    proof (cases "n < 10")
      case True
      then have "decimal n = [digit n]" by (subst decimal.simps) simp
      with dm "1.prems" have "decimal (m div 10) = []" by simp
      then show ?thesis using decimal_nonempty by blast
    next
      case nf: False
      then have "decimal n = decimal (n div 10) @ [digit (n mod 10)]"
        by (subst decimal.simps) simp
      with dm "1.prems" have e: "decimal (m div 10) = decimal (n div 10)"
        and d: "digit (m mod 10) = digit (n mod 10)" by simp_all
      from "1.IH" [OF False e] have q: "m div 10 = n div 10" .
      have "m mod 10 = n mod 10" using d by (intro digit_inj) simp_all
      with q show ?thesis by (metis div_mult_mod_eq)
    qed
  qed
qed

lemma candidate_inj: "candidate stem j = candidate stem k \<Longrightarrow> j = k"
  by (auto simp: candidate_def dest: decimal_inj split: if_splits)

lemma suffixLoop_finds:
  assumes "\<not> isFileExist st (candidate stem k)" and "n \<le> k" and "0 < n"
  shows "\<exists>j. n \<le> j \<and> j \<le> k \<and> suffixLoop st stem n = Some (candidate stem j)
           \<and> \<not> isFileExist st (candidate stem j)
           \<and> (\<forall>i. n \<le> i \<and> i < j \<longrightarrow> isFileExist st (candidate stem i))"
  using assms
proof (induction "k - n" arbitrary: n)
  case 0
  then have "n = k" by simp
  with 0 have "suffixLoop st stem n = Some (candidate stem n)"
    by (subst suffixLoop.simps) (simp add: candidate_def)
  with 0 \<open>n = k\<close> show ?case by auto
next
  case (Suc d)
  show ?case
  proof (cases "isFileExist st (candidate stem n)")
    case False
    with Suc.prems have "suffixLoop st stem n = Some (candidate stem n)"
      by (subst suffixLoop.simps) (simp add: candidate_def)
    with False Suc.prems show ?thesis by auto
  next
    case True
    have d: "d = k - (n + 1)" using Suc.hyps(2) by simp
    have "n \<noteq> k" using True Suc.prems(1) by auto
    then have "n + 1 \<le> k" using Suc.prems(2) by simp
    from Suc.hyps(1) [OF d Suc.prems(1) this]
    obtain j where j: "n + 1 \<le> j" "j \<le> k" "suffixLoop st stem (n + 1) = Some (candidate stem j)"
      "\<not> isFileExist st (candidate stem j)"
      "\<forall>i. n + 1 \<le> i \<and> i < j \<longrightarrow> isFileExist st (candidate stem i)"
      by auto
    have "suffixLoop st stem n = suffixLoop st stem (n + 1)"
      using True Suc.prems by (subst suffixLoop.simps) (simp add: candidate_def)
    moreover have "\<forall>i. n \<le> i \<and> i < j \<longrightarrow> isFileExist st (candidate stem i)"
      using j(5) True by (metis Suc_eq_plus1 Suc_leI le_neq_implies_less)
    ultimately have "n \<le> j \<and> j \<le> k \<and> suffixLoop st stem n = Some (candidate stem j)
           \<and> \<not> isFileExist st (candidate stem j)
           \<and> (\<forall>i. n \<le> i \<and> i < j \<longrightarrow> isFileExist st (candidate stem i))"
      using j by simp
    then show ?thesis by (rule exI)
  qed
qed

lemma isFileExist_in_dom: "isFileExist st p \<Longrightarrow> p \<in> dom (files st)"
  by (auto simp: isFileExist_def Stat_def split: option.splits)

lemma unused_candidate:
  assumes "finite (dom (files st))"
  shows "\<exists>k>0. \<not> isFileExist st (candidate stem k)"
proof (rule ccontr)
  assume "\<not> ?thesis"
  then have "\<And>k. 0 < k \<Longrightarrow> candidate stem k \<in> dom (files st)"
    using isFileExist_in_dom by blast
  then have "candidate stem ` {0<..} \<subseteq> dom (files st)"
    by blast
  then have "finite (candidate stem ` {0<..})" using assms finite_subset by blast
  moreover have "inj_on (candidate stem) {0<..}"
    using candidate_inj by (auto simp: inj_on_def)
  ultimately have "finite ({0<..} :: nat set)" using finite_imageD by blast
  then show False by (simp add: infinite_Ioi)
qed


lemma name_search:
  assumes "finite (dom (files st))"
  shows "\<exists>k. (if \<not> isFileExist st (stem @ ''.log'') then Some (stem @ ''.log'')
               else suffixLoop st stem 1) = Some (candidate stem k)
          \<and> \<not> isFileExist st (candidate stem k)
          \<and> (\<forall>j<k. isFileExist st (candidate stem j))"
proof (cases "isFileExist st (stem @ ''.log'')")
  case False
  then have "(if \<not> isFileExist st (stem @ ''.log'') then Some (stem @ ''.log'')
               else suffixLoop st stem 1) = Some (candidate stem 0)
          \<and> \<not> isFileExist st (candidate stem 0)
          \<and> (\<forall>j<0. isFileExist st (candidate stem j))"
    by (simp add: candidate_def)
  then show ?thesis by (rule exI)
next
  case True
  obtain k where k: "0 < k" "\<not> isFileExist st (candidate stem k)"
    using unused_candidate [OF assms] by blast
  then have "1 \<le> k" by simp
  from suffixLoop_finds [OF k(2) this]
  obtain j where j: "1 \<le> j" "suffixLoop st stem 1 = Some (candidate stem j)"
    "\<not> isFileExist st (candidate stem j)"
    "\<forall>i. 1 \<le> i \<and> i < j \<longrightarrow> isFileExist st (candidate stem i)"
    by auto
  have "\<forall>i<j. isFileExist st (candidate stem i)"
  proof (intro allI impI)
    fix i assume "i < j"
    show "isFileExist st (candidate stem i)"
    proof (cases "i = 0")
      case True
      with \<open>isFileExist st (stem @ ''.log'')\<close> show ?thesis by (simp add: candidate_def)
    next
      case False
      with \<open>i < j\<close> j(4) show ?thesis by simp
    qed
  qed
  with True j have "(if \<not> isFileExist st (stem @ ''.log'') then Some (stem @ ''.log'')
               else suffixLoop st stem 1) = Some (candidate stem j)
          \<and> \<not> isFileExist st (candidate stem j)
          \<and> (\<forall>i<j. isFileExist st (candidate stem i))"
    by simp
  then show ?thesis by (rule exI)
qed

lemma isFileExist_MkdirAll [simp]: "isFileExist (snd (MkdirAll p st)) q = isFileExist st q"
  by (auto simp: MkdirAll_def isFileExist_def Stat_def split: option.splits)

lemma finite_MkdirAll: "finite (dom (files st)) \<Longrightarrow> finite (dom (files (snd (MkdirAll p st))))"
  by (auto simp: MkdirAll_def Stat_def split: option.splits)

lemma newlogfile_eq:
  "newlogfile f st =
     map_option (\<lambda>fn. (fn, snd (MkdirAll (dateDir f) st)))
       (if \<not> isFileExist st (logStem f @ ''.log'') then Some (logStem f @ ''.log'')
        else suffixLoop (snd (MkdirAll (dateDir f) st)) (logStem f) 1)"
  by (simp add: newlogfile_def Let_def dateDir_def logStem_def)

lemma newDumpFile_eq:
  "newDumpFile st =
     map_option (\<lambda>fn. (fn, snd (MkdirAll (dumpDir (clock st)) st)))
       (if \<not> isFileExist st (dumpStem (clock st) @ ''.log'') then Some (dumpStem (clock st) @ ''.log'')
        else suffixLoop (snd (MkdirAll (dumpDir (clock st)) st)) (dumpStem (clock st)) 1)"
  by (simp add: newDumpFile_def Let_def dumpDir_def dumpStem_def)

lemma newlogfile_first_unused:
  assumes "finite (dom (files st))"
  shows "\<exists>k. newlogfile f st = Some (candidate (logStem f) k, snd (MkdirAll (dateDir f) st))
          \<and> \<not> isFileExist st (candidate (logStem f) k)
          \<and> (\<forall>j<k. isFileExist st (candidate (logStem f) j))"
proof -
  let ?st1 = "snd (MkdirAll (dateDir f) st)"
  obtain k where "(if \<not> isFileExist ?st1 (logStem f @ ''.log'') then Some (logStem f @ ''.log'')
               else suffixLoop ?st1 (logStem f) 1) = Some (candidate (logStem f) k)"
          "\<not> isFileExist ?st1 (candidate (logStem f) k)"
          "\<forall>j<k. isFileExist ?st1 (candidate (logStem f) j)"
    using name_search [OF finite_MkdirAll [OF assms]] by blast
  then have "newlogfile f st = Some (candidate (logStem f) k, ?st1)
          \<and> \<not> isFileExist st (candidate (logStem f) k)
          \<and> (\<forall>j<k. isFileExist st (candidate (logStem f) j))"
    by (simp add: newlogfile_eq)
  then show ?thesis by (rule exI)
qed

lemma newDumpFile_first_unused:
  assumes "finite (dom (files st))"
  shows "\<exists>k. newDumpFile st = Some (candidate (dumpStem (clock st)) k, snd (MkdirAll (dumpDir (clock st)) st))
          \<and> \<not> isFileExist st (candidate (dumpStem (clock st)) k)
          \<and> (\<forall>j<k. isFileExist st (candidate (dumpStem (clock st)) j))"
proof -
  let ?st1 = "snd (MkdirAll (dumpDir (clock st)) st)"
  let ?stem = "dumpStem (clock st)"
  obtain k where "(if \<not> isFileExist ?st1 (?stem @ ''.log'') then Some (?stem @ ''.log'')
               else suffixLoop ?st1 ?stem 1) = Some (candidate ?stem k)"
          "\<not> isFileExist ?st1 (candidate ?stem k)"
          "\<forall>j<k. isFileExist ?st1 (candidate ?stem j)"
    using name_search [OF finite_MkdirAll [OF assms]] by blast
  then have "newDumpFile st = Some (candidate ?stem k, ?st1)
          \<and> \<not> isFileExist st (candidate ?stem k)
          \<and> (\<forall>j<k. isFileExist st (candidate ?stem j))"
    by (simp add: newDumpFile_eq)
  then show ?thesis by (rule exI)
qed

lemma first_unused_later:
  assumes "\<not> isFileExist st (candidate stem k)" "\<forall>j<k. isFileExist st (candidate stem j)"
    and "\<not> isFileExist st' (candidate stem k')" "\<forall>j<k'. isFileExist st' (candidate stem j)"
    and "\<forall>p. isFileExist st p \<longrightarrow> isFileExist st' p"
  shows "k \<le> k' \<and> (isFileExist st' (candidate stem k) \<longrightarrow> k < k' \<and> candidate stem k' \<noteq> candidate stem k)"
proof -
  have "k \<le> k'"
  proof (rule ccontr)
    assume "\<not> k \<le> k'"
    then have "isFileExist st (candidate stem k')" using assms(2) by simp
    then show False using assms(3,5) by blast
  qed
  moreover have "isFileExist st' (candidate stem k) \<Longrightarrow> k \<noteq> k'" using assms(3) by auto
  ultimately show ?thesis using assms(3) by (auto simp: le_less)
qed


lemma Initialize_running: "Initialize ''./log/'' ''srv'' start = Some (None, running)"
  by (simp add: Initialize_def newlogfile_def MkdirAll_def OpenFile_def Stat_def isFileExist_def
      start_def running_def h0_def t0_def zpad_def decimal.simps digit_def Let_def)

text \<open>
  C8. The claim is that the path of the current log file has exactly one separator
  between its components. \<^verbatim>\<open>newlogfile\<close> ends the directory with a separator and then
  joins the file name with another one, so the path stored by \<^verbatim>\<open>Initialize\<close> and by
  \<^verbatim>\<open>rename\<close> has two separators between the date and the base name (\<^verbatim>\<open>newDumpFile\<close>
  joins directory and name without the second one). The date and the time in the path
  are those of the timestamp recorded by the rotation.
\<close>

theorem log_path_has_two_separators:
  "map_option (\<lambda>r. map_option logfilepath (logFile (snd r))) (Initialize ''./log/'' ''srv'' start)
     = Some (Some ''./log/2015-05-16//srv.10_22_33.log'')
   \<and> map_option (\<lambda>s. map_option logfilepath (logFile s)) (rename h0 (running\<lparr>clock := t1\<rparr>))
     = Some (Some ''./log/2015-05-17//srv.00_00_05.log'')"
  by (simp add: Initialize_def rename_def newlogfile_def MkdirAll_def OpenFile_def Close_def Stat_def isFileExist_def
      start_def running_def h0_def t0_def t1_def zpad_def decimal.simps digit_def Let_def)


lemma MkdirAll_idem: "snd (MkdirAll p (snd (MkdirAll p st))) = snd (MkdirAll p st)"
  by (simp add: MkdirAll_def Stat_def split: option.splits)

lemma MkdirAll_makes_dir:
  "\<not> fst (MkdirAll p st) \<Longrightarrow> \<exists>info. Stat (snd (MkdirAll p st)) p = Some info \<and> IsDir info"
  by (auto simp: MkdirAll_def Stat_def split: option.splits if_splits)

text \<open>
  C4. \<^verbatim>\<open>isMustRename\<close> answers true if and only if the day of the year of the clock
  differs from that of the handle's timestamp, or the current log file has at least
  512 * 1024 * 1024 bytes, or the current log file does not exist (any more). A true
  answer leaves the state alone. A false answer has run \<^verbatim>\<open>os.MkdirAll\<close> on the log
  directory, which changes nothing when run again and, unless it reports an error,
  leaves the log directory in place as a directory.
\<close>

theorem isMustRename_iff:
  "fst (isMustRename f st) =
     (YearDay (clock st) \<noteq> YearDay (timestamp f)
      \<or> (isFileExist st (logfilepath f)
          \<and> (\<exists>info. Stat st (logfilepath f) = Some info \<and> 512 * 1024 * 1024 \<le> Size info))
      \<or> \<not> isFileExist st (logfilepath f))
   \<and> (fst (isMustRename f st) \<longrightarrow> snd (isMustRename f st) = st)
   \<and> (\<not> fst (isMustRename f st) \<longrightarrow>
        snd (isMustRename f st) = snd (MkdirAll (log_dir f) st)
        \<and> snd (MkdirAll (log_dir f) (snd (isMustRename f st))) = snd (isMustRename f st)
        \<and> (\<not> fst (MkdirAll (log_dir f) st) \<longrightarrow>
             (\<exists>info. Stat (snd (isMustRename f st)) (log_dir f) = Some info \<and> IsDir info)))"
proof -
  have a: "fst (isMustRename f st) =
     (YearDay (clock st) \<noteq> YearDay (timestamp f)
      \<or> (isFileExist st (logfilepath f)
          \<and> (\<exists>info. Stat st (logfilepath f) = Some info \<and> 512 * 1024 * 1024 \<le> Size info))
      \<or> \<not> isFileExist st (logfilepath f))"
    by (auto simp: isMustRename_def checkFileDate_def checkFileSize_def checkFileExist_def
        isFileExist_def logMaxSize_def split: option.splits)
  have b: "fst (isMustRename f st) \<longrightarrow> snd (isMustRename f st) = st"
    by (simp add: isMustRename_def)
  have c: "\<not> fst (isMustRename f st) \<longrightarrow> snd (isMustRename f st) = snd (MkdirAll (log_dir f) st)"
    by (simp add: isMustRename_def)
  from a b c show ?thesis
    using MkdirAll_idem [of "log_dir f" st] MkdirAll_makes_dir [of "log_dir f" st] by simp
qed

theorem isMustRename_iff_witness:
  "\<not> fst (isMustRename h0 running) \<and> \<not> fst (MkdirAll (log_dir h0) running)
   \<and> (\<exists>info. Stat (snd (isMustRename h0 running)) (log_dir h0) = Some info \<and> IsDir info)
   \<and> fst (isMustRename h0 (running\<lparr>clock := t1\<rparr>))
   \<and> snd (isMustRename h0 (running\<lparr>clock := t1\<rparr>)) = running\<lparr>clock := t1\<rparr>"
proof -
  have a: "\<not> fst (isMustRename h0 running)"
    by (simp add: isMustRename_def checkFileDate_def checkFileSize_def checkFileExist_def
        isFileExist_def Stat_def logMaxSize_def running_def h0_def start_def)
  have b: "\<not> fst (MkdirAll (log_dir h0) running)"
    by (simp add: MkdirAll_def Stat_def running_def h0_def start_def)
  have c: "fst (isMustRename h0 (running\<lparr>clock := t1\<rparr>))"
    by (simp add: isMustRename_def checkFileDate_def YearDay_def daysBefore_def isLeap_def
        running_def h0_def start_def t0_def t1_def)
  from a b c isMustRename_iff [of h0 running] isMustRename_iff [of h0 "running\<lparr>clock := t1\<rparr>"]
  show ?thesis by blast
qed

text \<open>
  C6. On a file system with finitely many entries the search for a file name ends, for
  a log file and for a dump file alike, and it returns the first unused name in the
  order stem, stem_1, stem_2, ...: every earlier name exists and the returned one does
  not. A second search for the same second, on a file system where nothing has been
  removed, returns a name that is not earlier in that order, and a strictly later and
  different one as soon as the first name exists.
\<close>

theorem collision_suffix_first_unused:
  assumes "finite (dom (files st))" and "finite (dom (files st'))"
    and "\<forall>p. isFileExist st p \<longrightarrow> isFileExist st' p"
  shows "(\<exists>k k'. newlogfile f st = Some (candidate (logStem f) k, snd (MkdirAll (dateDir f) st))
            \<and> \<not> isFileExist st (candidate (logStem f) k)
            \<and> (\<forall>j<k. isFileExist st (candidate (logStem f) j))
            \<and> newlogfile f st' = Some (candidate (logStem f) k', snd (MkdirAll (dateDir f) st'))
            \<and> \<not> isFileExist st' (candidate (logStem f) k')
            \<and> (\<forall>j<k'. isFileExist st' (candidate (logStem f) j))
            \<and> k \<le> k'
            \<and> (isFileExist st' (candidate (logStem f) k) \<longrightarrow>
                  k < k' \<and> candidate (logStem f) k' \<noteq> candidate (logStem f) k))
       \<and> (clock st' = clock st \<longrightarrow>
           (\<exists>k k'. newDumpFile st = Some (candidate (dumpStem (clock st)) k,
                                         snd (MkdirAll (dumpDir (clock st)) st))
            \<and> \<not> isFileExist st (candidate (dumpStem (clock st)) k)
            \<and> (\<forall>j<k. isFileExist st (candidate (dumpStem (clock st)) j))
            \<and> newDumpFile st' = Some (candidate (dumpStem (clock st)) k',
                                      snd (MkdirAll (dumpDir (clock st)) st'))
            \<and> \<not> isFileExist st' (candidate (dumpStem (clock st)) k')
            \<and> (\<forall>j<k'. isFileExist st' (candidate (dumpStem (clock st)) j))
            \<and> k \<le> k'
            \<and> (isFileExist st' (candidate (dumpStem (clock st)) k) \<longrightarrow>
                  k < k' \<and> candidate (dumpStem (clock st)) k' \<noteq> candidate (dumpStem (clock st)) k)))"
proof (intro conjI impI)
  obtain k where k: "newlogfile f st = Some (candidate (logStem f) k, snd (MkdirAll (dateDir f) st))"
      "\<not> isFileExist st (candidate (logStem f) k)" "\<forall>j<k. isFileExist st (candidate (logStem f) j)"
    using newlogfile_first_unused [OF assms(1)] by blast
  obtain k' where k': "newlogfile f st' = Some (candidate (logStem f) k', snd (MkdirAll (dateDir f) st'))"
      "\<not> isFileExist st' (candidate (logStem f) k')" "\<forall>j<k'. isFileExist st' (candidate (logStem f) j)"
    using newlogfile_first_unused [OF assms(2)] by blast
  from first_unused_later [OF k(2,3) k'(2,3) assms(3)] k k'
  show "\<exists>k k'. newlogfile f st = Some (candidate (logStem f) k, snd (MkdirAll (dateDir f) st))
            \<and> \<not> isFileExist st (candidate (logStem f) k)
            \<and> (\<forall>j<k. isFileExist st (candidate (logStem f) j))
            \<and> newlogfile f st' = Some (candidate (logStem f) k', snd (MkdirAll (dateDir f) st'))
            \<and> \<not> isFileExist st' (candidate (logStem f) k')
            \<and> (\<forall>j<k'. isFileExist st' (candidate (logStem f) j))
            \<and> k \<le> k'
            \<and> (isFileExist st' (candidate (logStem f) k) \<longrightarrow>
                  k < k' \<and> candidate (logStem f) k' \<noteq> candidate (logStem f) k)"
    by blast
next
  assume c: "clock st' = clock st"
  let ?stem = "dumpStem (clock st)"
  obtain k where k: "newDumpFile st = Some (candidate ?stem k, snd (MkdirAll (dumpDir (clock st)) st))"
      "\<not> isFileExist st (candidate ?stem k)" "\<forall>j<k. isFileExist st (candidate ?stem j)"
    using newDumpFile_first_unused [OF assms(1)] by blast
  obtain k' where k': "newDumpFile st' = Some (candidate ?stem k', snd (MkdirAll (dumpDir (clock st)) st'))"
      "\<not> isFileExist st' (candidate ?stem k')" "\<forall>j<k'. isFileExist st' (candidate ?stem j)"
    using newDumpFile_first_unused [OF assms(2)] c by auto
  from first_unused_later [OF k(2,3) k'(2,3) assms(3)] k k'
  show "\<exists>k k'. newDumpFile st = Some (candidate ?stem k, snd (MkdirAll (dumpDir (clock st)) st))
            \<and> \<not> isFileExist st (candidate ?stem k)
            \<and> (\<forall>j<k. isFileExist st (candidate ?stem j))
            \<and> newDumpFile st' = Some (candidate ?stem k', snd (MkdirAll (dumpDir (clock st)) st'))
            \<and> \<not> isFileExist st' (candidate ?stem k')
            \<and> (\<forall>j<k'. isFileExist st' (candidate ?stem j))
            \<and> k \<le> k'
            \<and> (isFileExist st' (candidate ?stem k) \<longrightarrow>
                  k < k' \<and> candidate ?stem k' \<noteq> candidate ?stem k)"
    by blast
qed


theorem collision_suffix_first_unused_witness:
  "finite (dom (files running)) \<and> finite (dom (files running2))
   \<and> (\<exists>k k'. newlogfile h0 running = Some (candidate (logStem h0) k, snd (MkdirAll (dateDir h0) running))
            \<and> newlogfile h0 running2 = Some (candidate (logStem h0) k', snd (MkdirAll (dateDir h0) running2))
            \<and> k \<le> k')
   \<and> map_option fst (newlogfile h0 running) = Some ''./log/2015-05-16//srv.10_22_33_1.log''
   \<and> map_option fst (newlogfile h0 running2) = Some ''./log/2015-05-16//srv.10_22_33_2.log''"
proof -
  have a: "finite (dom (files running))"
    by (simp add: running_def start_def)
  have b: "finite (dom (files running2))"
    by (simp add: running2_def OpenFile_def Stat_def running_def start_def)
  have c: "\<forall>p. isFileExist running p \<longrightarrow> isFileExist running2 p"
    by (simp add: running2_def OpenFile_def Stat_def isFileExist_def running_def start_def)
  have d: "map_option fst (newlogfile h0 running) = Some ''./log/2015-05-16//srv.10_22_33_1.log''"
    by (simp add: newlogfile_def suffixLoop.simps MkdirAll_def Stat_def isFileExist_def
        running_def h0_def start_def t0_def zpad_def decimal.simps digit_def Let_def)
  have e: "map_option fst (newlogfile h0 running2) = Some ''./log/2015-05-16//srv.10_22_33_2.log''"
    by (simp add: newlogfile_def suffixLoop.simps MkdirAll_def Stat_def isFileExist_def
        running2_def OpenFile_def
        running_def h0_def start_def t0_def zpad_def decimal.simps digit_def Let_def)
  from collision_suffix_first_unused [OF a b c, of h0] a b c d e show ?thesis by blast
qed

lemma OpenFile_Close_fails:
  "fst (OpenFile p (Close fd st)) = None \<longleftrightarrow> fst (OpenFile p st) = None"
  by (simp add: OpenFile_def Close_def Stat_def split: option.splits)

lemma OpenFile_fails_same: "fst (OpenFile p st) = None \<Longrightarrow> snd (OpenFile p st) = st"
  by (simp add: OpenFile_def split: option.splits if_splits)

lemma plain_file_writes_iff:
  assumes "handle_ok st"
  shows "(file_writes (snd (plain Sprintln Sprintf cs c st)) \<noteq> file_writes st)
            = (file_sink st \<and> logLevel st \<le> severity c)"
proof -
  obtain tg tx where p: "\<And>s. plain Sprintln Sprintf cs c s =
     run_defer catchError
       (if logLevel s \<le> severity c then emit tg (severity c) tx cs s else (None, s))"
    using plain_gate_all by blast
  show ?thesis
    using emit_events(4) [OF assms, of tg "severity c" tx cs]
    by (simp add: p emit_returns [OF assms] catchError_normal)
qed

text \<open>
  C5, as claimed: when the new log file cannot be opened during a rotation, the handle
  keeps the file it had, open and usable. It does not: \<^verbatim>\<open>rename\<close> closes the old file
  before it opens the new one and stores the nil result of the failed open. Here the
  handle holds descriptor 3, open on the log file of the day before; the open of the new
  name fails; afterwards the handle's file is nil, descriptor 3 is closed, and the logger
  has no open file to write to.
\<close>

theorem failed_rotation_loses_the_file:
  "logfile h0 = Some 3 \<and> fdtab blocked 3 = Some ''./log/2015-05-16//srv.10_22_33.log''
   \<and> newlogfile (h0\<lparr>timestamp := clock blocked\<rparr>) blocked
       = Some (''./log/2015-05-17//srv.00_00_05.log'', snd (MkdirAll ''./log/2015-05-17/'' blocked))
   \<and> fst (OpenFile ''./log/2015-05-17//srv.00_00_05.log''
            (Close 3 (snd (MkdirAll ''./log/2015-05-17/'' blocked)))) = None
   \<and> rename h0 blocked \<noteq> None
   \<and> logfile (the (logFile (the (rename h0 blocked)))) = None
   \<and> fdtab (the (rename h0 blocked)) 3 = None
   \<and> \<not> file_sink (the (rename h0 blocked))"
  by (simp add: rename_def newlogfile_def MkdirAll_def OpenFile_def Close_def Stat_def
      isFileExist_def file_sink_def blocked_def running_def h0_def start_def t0_def t1_def
      zpad_def decimal.simps digit_def Let_def)


lemma rename_failed_open:
  assumes nf: "newlogfile (f\<lparr>timestamp := clock st\<rparr>) st = Some (fn, st1)"
    and fail: "fst (OpenFile fn st1) = None"
  shows "rename f st = Some ((case logfile f of None \<Rightarrow> st1 | Some fd \<Rightarrow> Close fd st1)
           \<lparr>logFile := Some (f\<lparr>timestamp := clock st, logfile := None,
               logger := Some \<lparr>out = None, lflags = logFlags\<rparr>, logfilepath := fn\<rparr>)\<rparr>)"
proof -
  let ?st2 = "case logfile f of None \<Rightarrow> st1 | Some fd \<Rightarrow> Close fd st1"
  have f2: "fst (OpenFile fn ?st2) = None"
    using fail by (cases "logfile f") (simp_all add: OpenFile_Close_fails)
  then have s2: "snd (OpenFile fn ?st2) = ?st2" by (rule OpenFile_fails_same)
  show ?thesis
    using nf f2 s2 by (simp add: rename_def Let_def)
qed

lemma newlogfile_unused:
  "newlogfile f st = Some (fn, st1) \<Longrightarrow> finite (dom (files st)) \<Longrightarrow>
   \<not> isFileExist st1 fn \<and> st1 = snd (MkdirAll (dateDir f) st)"
  using newlogfile_first_unused [of st f] by auto

text \<open>
  C5, amended. When the new log file cannot be opened during a rotation, \<^verbatim>\<open>rename\<close>
  still returns: the failure is dropped. The file the handle had is closed, the handle's
  file is nil, its logger writes to that nil file, and its path and timestamp are those of
  the file that could not be opened. The handle stays well formed, so an emission call
  after that does not panic, but it writes nothing to any file; and since the recorded
  path does not exist, the next check asks for a rotation again.
\<close>

theorem failed_rotation_drops_file_output:
  assumes fin: "finite (dom (files st))"
    and nf: "newlogfile (f\<lparr>timestamp := clock st\<rparr>) st = Some (fn, st1)"
    and fail: "fst (OpenFile fn st1) = None"
  shows "\<exists>st' f'. rename f st = Some st' \<and> logFile st' = Some f'
      \<and> logfile f' = None \<and> logger f' = Some \<lparr>out = None, lflags = logFlags\<rparr>
      \<and> logfilepath f' = fn \<and> timestamp f' = clock st
      \<and> (\<forall>fd. logfile f = Some fd \<longrightarrow> fdtab st' fd = None)
      \<and> handle_ok st' \<and> \<not> file_sink st'
      \<and> fst (plain Sprintln Sprintf cs c st') = None
      \<and> file_writes (snd (plain Sprintln Sprintf cs c st')) = file_writes st'
      \<and> fst (isMustRename f' st')"
proof -
  let ?st2 = "case logfile f of None \<Rightarrow> st1 | Some fd \<Rightarrow> Close fd st1"
  let ?f' = "f\<lparr>timestamp := clock st, logfile := None,
               logger := Some \<lparr>out = None, lflags = logFlags\<rparr>, logfilepath := fn\<rparr>"
  let ?st' = "?st2\<lparr>logFile := Some ?f'\<rparr>"
  have r: "rename f st = Some ?st'" using rename_failed_open [OF nf fail] .
  have ok: "handle_ok ?st'" by (simp add: handle_ok_def)
  have ns: "\<not> file_sink ?st'" by (simp add: file_sink_def)
  have cl: "\<forall>fd. logfile f = Some fd \<longrightarrow> fdtab ?st' fd = None"
    by (auto simp: Close_def)
  have "\<not> isFileExist st1 fn" using newlogfile_unused [OF nf fin] by blast
  then have "\<not> isFileExist ?st' fn"
    by (cases "logfile f") (simp_all add: isFileExist_def Stat_def Close_def)
  then have mr: "fst (isMustRename ?f' ?st')"
    by (simp add: isMustRename_def checkFileExist_def)
  have np: "fst (plain Sprintln Sprintf cs c ?st') = None"
  proof -
    obtain tg tx where "plain Sprintln Sprintf cs c ?st' =
      run_defer catchError
        (if logLevel ?st' \<le> severity c then emit tg (severity c) tx cs ?st' else (None, ?st'))"
      using plain_gate by blast
    then show ?thesis by (simp only: catchError_recovers)
  qed
  have fw: "file_writes (snd (plain Sprintln Sprintf cs c ?st')) = file_writes ?st'"
    using plain_file_writes_iff [OF ok, of Sprintln Sprintf cs c] ns by blast
  have "rename f st = Some ?st' \<and> logFile ?st' = Some ?f'
      \<and> logfile ?f' = None \<and> logger ?f' = Some \<lparr>out = None, lflags = logFlags\<rparr>
      \<and> logfilepath ?f' = fn \<and> timestamp ?f' = clock st
      \<and> (\<forall>fd. logfile f = Some fd \<longrightarrow> fdtab ?st' fd = None)
      \<and> handle_ok ?st' \<and> \<not> file_sink ?st'
      \<and> fst (plain Sprintln Sprintf cs c ?st') = None
      \<and> file_writes (snd (plain Sprintln Sprintf cs c ?st')) = file_writes ?st'
      \<and> fst (isMustRename ?f' ?st')"
    using r ok ns cl mr np fw by simp
  then show ?thesis by blast
qed

theorem failed_rotation_drops_file_output_witness:
  "finite (dom (files blocked))
   \<and> newlogfile (h0\<lparr>timestamp := clock blocked\<rparr>) blocked
       = Some (''./log/2015-05-17//srv.00_00_05.log'', snd (MkdirAll ''./log/2015-05-17/'' blocked))
   \<and> fst (OpenFile ''./log/2015-05-17//srv.00_00_05.log''
            (snd (MkdirAll ''./log/2015-05-17/'' blocked))) = None
   \<and> (\<exists>st' f'. rename h0 blocked = Some st' \<and> logFile st' = Some f' \<and> logfile f' = None
         \<and> \<not> file_sink st' \<and> fst (isMustRename f' st'))"
proof -
  have a: "finite (dom (files blocked))"
    by (simp add: blocked_def running_def start_def)
  have b: "newlogfile (h0\<lparr>timestamp := clock blocked\<rparr>) blocked
       = Some (''./log/2015-05-17//srv.00_00_05.log'', snd (MkdirAll ''./log/2015-05-17/'' blocked))"
    by (simp add: newlogfile_def MkdirAll_def Stat_def isFileExist_def blocked_def running_def
        h0_def start_def t1_def zpad_def decimal.simps digit_def Let_def)
  have c: "fst (OpenFile ''./log/2015-05-17//srv.00_00_05.log''
            (snd (MkdirAll ''./log/2015-05-17/'' blocked))) = None"
    by (simp add: OpenFile_def MkdirAll_def Stat_def blocked_def running_def start_def)
  from failed_rotation_drops_file_output [OF a b c, of Sprintln_strings "\<lambda>fm as. fm" here "Call_Info ''x''"]
  have "\<exists>st' f'. rename h0 blocked = Some st' \<and> logFile st' = Some f' \<and> logfile f' = None
         \<and> \<not> file_sink st' \<and> fst (isMustRename f' st')"
    by blast
  with a b c show ?thesis by blast
qed


text \<open>
  C7, as claimed: with a panic in flight \<^verbatim>\<open>CatchException\<close> writes the dump file and
  prints the same block on the console, always. It does not when the dump file cannot be
  opened: it returns at once, and nothing is written or printed. The panic is stopped
  all the same.
\<close>

theorem unopened_dump_is_silent:
  "fst (OpenFile ''./exceptions/2015-05-16/exceptions.10_22_33.log''
          (snd (MkdirAll ''./exceptions/2015-05-16/'' nodump))) = None
   \<and> CatchException quoted ''goroutine 1 [running]'' (Some ''boom'') nodump
       = Some (None, snd (MkdirAll ''./exceptions/2015-05-16/'' nodump))
   \<and> events (snd (MkdirAll ''./exceptions/2015-05-16/'' nodump)) = []"
  by (simp add: CatchException_def newDumpFile_def MkdirAll_def OpenFile_def Stat_def
      isFileExist_def nodump_def start_def t0_def zpad_def decimal.simps digit_def Let_def)

lemma OpenFile_opens:
  "OpenFile p st = (Some fd, st2) \<Longrightarrow> fdtab st2 fd = Some p \<and> events st2 = events st"
  by (auto simp: OpenFile_def split: option.splits if_splits)

lemma OpenFile_fails:
  "OpenFile p st = (None, st2) \<Longrightarrow> st2 = st"
  by (auto simp: OpenFile_def split: option.splits if_splits)

lemma events_MkdirAll [simp]: "events (snd (MkdirAll p st)) = events st"
  by (simp add: MkdirAll_def split: option.splits)

lemma strLog_contains: "\<exists>a b. strLog err stack = a @ err @ b @ stack"
  unfolding strLog_def by (metis append.assoc)

lemma CatchException_result:
  assumes nd: "newDumpFile st = Some (fn, st1)"
  shows "CatchException GoSyntax stack (Some err) st =
     (case OpenFile fn st1 of
        (None, st2) \<Rightarrow> Some (None, st1)
      | (Some fd, st2) \<Rightarrow>
          Some (None, (Close fd (fmt_Println (strLog (GoSyntax err) stack)
            (Write (Some fd) (strLog (GoSyntax err) stack @ [newline]) st2)))))"
proof (cases "OpenFile fn st1")
  case (Pair fo st2)
  show ?thesis
  proof (cases fo)
    case None
    with Pair nd OpenFile_fails [of fn st1 st2] show ?thesis
      by (simp add: CatchException_def)
  next
    case (Some fd)
    with Pair nd show ?thesis
      by (simp add: CatchException_def Let_def Output_def formatHeader_def
          logDumpExceptionFlag_def endLine_def)
  qed
qed

text \<open>
  C7, amended. On a file system with finitely many entries, \<^verbatim>\<open>CatchException\<close> with
  a panic in flight returns and the panic does not go further. The file it opens is the
  first unused name among \<^verbatim>\<open>./exceptions/{YYYY-MM-DD}/exceptions.{HH_MM_SS}.log\<close>, then
  \<^verbatim>\<open>_1\<close>, \<^verbatim>\<open>_2\<close>, ... If that file can be opened, one block is appended to it and the
  same block is printed on standard output, whatever the console flag (the state is
  arbitrary); the block holds the value of the panic and, at its end, the stack trace. If
  the file cannot be opened, nothing is written to any file or stream.
\<close>

theorem crash_dump_when_file_opens:
  assumes fin: "finite (dom (files st))"
  shows "\<exists>k st'. CatchException GoSyntax stack (Some err) st = Some (None, st')
      \<and> \<not> isFileExist st (candidate (dumpStem (clock st)) k)
      \<and> (\<forall>j<k. isFileExist st (candidate (dumpStem (clock st)) j))
      \<and> (if fst (OpenFile (candidate (dumpStem (clock st)) k) (snd (MkdirAll (dumpDir (clock st)) st))) = None
          then events st' = events st
          else events st' = events st
                 @ [FileWrite (candidate (dumpStem (clock st)) k) (strLog (GoSyntax err) stack @ [newline]),
                    Stdout (strLog (GoSyntax err) stack @ [newline])])
      \<and> (\<exists>a b. strLog (GoSyntax err) stack = a @ GoSyntax err @ b @ stack)"
proof -
  let ?stem = "dumpStem (clock st)"
  let ?st1 = "snd (MkdirAll (dumpDir (clock st)) st)"
  obtain k where k: "newDumpFile st = Some (candidate ?stem k, ?st1)"
      "\<not> isFileExist st (candidate ?stem k)" "\<forall>j<k. isFileExist st (candidate ?stem j)"
    using newDumpFile_first_unused [OF fin] by blast
  let ?fn = "candidate ?stem k"
  let ?text = "strLog (GoSyntax err) stack"
  note res = CatchException_result [OF k(1), of GoSyntax stack err]
  obtain fo st2 where o: "OpenFile ?fn ?st1 = (fo, st2)" by (cases "OpenFile ?fn ?st1")
  show ?thesis
  proof (cases fo)
    case None
    then have "CatchException GoSyntax stack (Some err) st = Some (None, ?st1)"
      using res o by simp
    moreover have "fst (OpenFile ?fn ?st1) = None" using o None by simp
    moreover have "events ?st1 = events st" by simp
    ultimately have "CatchException GoSyntax stack (Some err) st = Some (None, ?st1)
      \<and> \<not> isFileExist st ?fn \<and> (\<forall>j<k. isFileExist st (candidate ?stem j))
      \<and> (if fst (OpenFile ?fn ?st1) = None then events ?st1 = events st
          else events ?st1 = events st @ [FileWrite ?fn (?text @ [newline]), Stdout (?text @ [newline])])
      \<and> (\<exists>a b. ?text = a @ GoSyntax err @ b @ stack)"
      using k(2,3) strLog_contains by simp
    then show ?thesis by blast
  next
    case (Some fd)
    let ?st' = "Close fd (fmt_Println ?text (Write (Some fd) (?text @ [newline]) st2))"
    have c: "CatchException GoSyntax stack (Some err) st = Some (None, ?st')"
      using res o Some by simp
    have nf: "fst (OpenFile ?fn ?st1) \<noteq> None" using o Some by simp
    have op: "fdtab st2 fd = Some ?fn" "events st2 = events st"
      using OpenFile_opens [of ?fn ?st1 fd st2] o Some by simp_all
    have ev: "events ?st' = events st @ [FileWrite ?fn (?text @ [newline]), Stdout (?text @ [newline])]"
      using op by (simp add: Close_def fmt_Println_def Write_def)
    have "CatchException GoSyntax stack (Some err) st = Some (None, ?st')
      \<and> \<not> isFileExist st ?fn \<and> (\<forall>j<k. isFileExist st (candidate ?stem j))
      \<and> (if fst (OpenFile ?fn ?st1) = None then events ?st' = events st
          else events ?st' = events st @ [FileWrite ?fn (?text @ [newline]), Stdout (?text @ [newline])])
      \<and> (\<exists>a b. ?text = a @ GoSyntax err @ b @ stack)"
      using c nf ev k(2,3) strLog_contains by simp
    then show ?thesis by blast
  qed
qed

theorem crash_dump_when_file_opens_witness:
  "finite (dom (files (start\<lparr>logConsole := False\<rparr>)))
   \<and> (\<exists>k st'. CatchException quoted ''goroutine 1 [running]'' (Some ''boom'') (start\<lparr>logConsole := False\<rparr>)
          = Some (None, st')
        \<and> candidate (dumpStem (clock (start\<lparr>logConsole := False\<rparr>))) k
            = ''./exceptions/2015-05-16/exceptions.10_22_33.log''
        \<and> events st' = [FileWrite ''./exceptions/2015-05-16/exceptions.10_22_33.log''
                           (strLog (quoted ''boom'') ''goroutine 1 [running]'' @ [newline]),
                         Stdout (strLog (quoted ''boom'') ''goroutine 1 [running]'' @ [newline])])"
proof -
  let ?s = "start\<lparr>logConsole := False\<rparr>"
  let ?stem = "dumpStem (clock ?s)"
  let ?fn = "''./exceptions/2015-05-16/exceptions.10_22_33.log''"
  let ?text = "strLog (quoted ''boom'') ''goroutine 1 [running]''"
  have a: "finite (dom (files ?s))" by (simp add: start_def)
  have none: "\<And>p. \<not> isFileExist ?s p" by (simp add: isFileExist_def Stat_def start_def)
  have nm: "candidate ?stem 0 = ?fn"
    by (simp add: candidate_def dumpStem_def dumpDir_def start_def t0_def zpad_def
        decimal.simps digit_def)
  have op: "fst (OpenFile ?fn (snd (MkdirAll (dumpDir (clock ?s)) ?s))) \<noteq> None"
    by (simp add: OpenFile_def MkdirAll_def Stat_def dumpDir_def start_def t0_def zpad_def
        decimal.simps digit_def)
  have ev: "events ?s = []" by (simp add: start_def)
  from crash_dump_when_file_opens [OF a, of quoted "''goroutine 1 [running]''" "''boom''"]
  obtain k st' where r:
    "CatchException quoted ''goroutine 1 [running]'' (Some ''boom'') ?s = Some (None, st')"
    "\<forall>j<k. isFileExist ?s (candidate ?stem j)"
    "if fst (OpenFile (candidate ?stem k) (snd (MkdirAll (dumpDir (clock ?s)) ?s))) = None
     then events st' = events ?s
     else events st' = events ?s
            @ [FileWrite (candidate ?stem k) (?text @ [newline]), Stdout (?text @ [newline])]"
    by blast
  have "k = 0" using r(2) none by (cases k) auto
  with r(3) nm op ev have "events st' = [FileWrite ?fn (?text @ [newline]), Stdout (?text @ [newline])]"
    by simp
  with r(1) nm \<open>k = 0\<close> a show ?thesis by blast
qed

end
